theory Spec2Isabelle
  imports Main "HOL-Library.Sublist"
begin

text \<open>
  A model of the cast orchestrator, the playback controller and the metadata encoder of
  react-native-dlna-player: \<^verbatim>\<open>RNByronDLNAModuleEnhanced.java\<close> (Android),
  \<^verbatim>\<open>RNByronDLNAEnhanced.mm\<close> (iOS, playback control) and the wrapper
  \<^verbatim>\<open>index-enhanced.js\<close>.  Native methods are functions on an explicit state; the
  runnables and callbacks they leave behind are entries of a queue that an event loop
  executes in the order of their due times.
\<close>

section \<open>Strings\<close>

text \<open>
  Strings of the Java, Objective-C and JavaScript sources are modelled as \<^typ>\<open>string\<close>
  (lists of characters).  A reference that may be \<open>null\<close> is a \<^typ>\<open>string option\<close>.
  The functions below are the library calls the sources use: \<open>String.startsWith\<close>,
  \<open>String.endsWith\<close>, \<open>String.contains\<close>, \<open>String.replace(CharSequence, CharSequence)\<close>
  and \<open>String.toLowerCase\<close> (\<open>hasPrefix\<close>, \<open>hasSuffix\<close>, \<open>containsString\<close> and
  \<open>stringByReplacingOccurrencesOfString\<close> on iOS).  \<open>toLowerCase\<close> maps the letters
  \<open>A\<close> to \<open>Z\<close> and leaves every other character as it is.
\<close>

fun startsWith :: "string \<Rightarrow> string \<Rightarrow> bool" where
  "startsWith s [] = True"
| "startsWith [] (p # ps) = False"
| "startsWith (c # cs) (p # ps) = (c = p \<and> startsWith cs ps)"

definition endsWith :: "string \<Rightarrow> string \<Rightarrow> bool" where
  "endsWith s suf = startsWith (rev s) (rev suf)"

fun contains :: "string \<Rightarrow> string \<Rightarrow> bool" where
  "contains [] sub = startsWith [] sub"
| "contains (c # cs) sub = (startsWith (c # cs) sub \<or> contains cs sub)"

text \<open>
  \<open>text.replace(target, replacement)\<close>: every occurrence of the literal \<open>target\<close> is
  replaced, scanning from the beginning of the text to its end; the scan resumes after the
  replaced occurrence.  An empty target matches between all characters.
\<close>

function replace :: "string \<Rightarrow> string \<Rightarrow> string \<Rightarrow> string" where
  "replace [] tgt rep = (if tgt = [] then rep else [])"
| "replace (c # cs) tgt rep =
     (if tgt = [] then rep @ c # replace cs tgt rep
      else if startsWith (c # cs) tgt then rep @ replace (drop (length tgt) (c # cs)) tgt rep
      else c # replace cs tgt rep)"
  by pat_completeness auto
termination
  by (relation "measure (\<lambda>(s, tgt, rep). length s)") auto

definition toLowerChar :: "char \<Rightarrow> char" where
  "toLowerChar c =
     (case map_of (zip ''ABCDEFGHIJKLMNOPQRSTUVWXYZ'' ''abcdefghijklmnopqrstuvwxyz'') c of
        Some l \<Rightarrow> l
      | None \<Rightarrow> c)"

definition toLowerCase :: "string \<Rightarrow> string" where
  "toLowerCase s = map toLowerChar s"

text \<open>Decimal rendering of a number, as string concatenation with an \<open>int\<close> produces it.\<close>

definition digitChar :: "nat \<Rightarrow> char" where
  "digitChar d = ''0123456789'' ! (d mod 10)"

function decimal :: "nat \<Rightarrow> string" where
  "decimal n = (if n < 10 then [digitChar n] else decimal (n div 10) @ [digitChar n])"
  by pat_completeness auto
termination
  by (relation "measure id") auto

declare decimal.simps [simp del]

section \<open>Metadata encoder\<close>

text \<open>
  \<open>escapeXml\<close> of \<^verbatim>\<open>RNByronDLNAModuleEnhanced.java\<close> (and of \<^verbatim>\<open>RNByronDLNAEnhanced.mm\<close>):
  a \<open>null\<close> text gives the empty string, otherwise five replacements are chained,
  the ampersand first.
\<close>

definition escapeXml :: "string option \<Rightarrow> string" where
  \<open>escapeXml text =
     (case text of
        None \<Rightarrow> ''''
      | Some t \<Rightarrow>
          replace (replace (replace (replace (replace t
            ''&'' ''&amp;'')
            ''<'' ''&lt;'')
            ''>'' ''&gt;'')
            ''"'' ''&quot;'')
            [CHR 0x27] ''&apos;'')\<close>

text \<open>The \<open>protocolInfo\<close> local of \<open>generateDIDLMetadata\<close>, computed from the raw url.\<close>

definition protocolInfo :: "string \<Rightarrow> string" where
  "protocolInfo url =
     (if endsWith url ''.m3u8'' \<or> contains url ''.m3u8?'' then
        ''http-get:*:application/vnd.apple.mpegurl:*''
      else if endsWith url ''.mp4'' then
        ''http-get:*:video/mp4:*''
      else
        ''http-get:*:video/*:*'')"

definition generateDIDLMetadata :: "string \<Rightarrow> string \<Rightarrow> string" where
  \<open>generateDIDLMetadata url title =
     (let escapedUrl = escapeXml (Some url);
          escapedTitle = escapeXml (Some title)
      in ''<DIDL-Lite xmlns="urn:schemas-upnp-org:metadata-1-0/DIDL-Lite/" '' @
         ''xmlns:dc="http://purl.org/dc/elements/1.1/" '' @
         ''xmlns:upnp="urn:schemas-upnp-org:metadata-1-0/upnp/" '' @
         ''xmlns:dlna="urn:schemas-dlna-org:metadata-1-0/">'' @
         ''<item id="1" parentID="0" restricted="1">'' @
         ''<dc:title>'' @ escapedTitle @ ''</dc:title>'' @
         ''<upnp:class>object.item.videoItem</upnp:class>'' @
         ''<res protocolInfo="'' @ protocolInfo url @ ''">'' @ escapedUrl @ ''</res>'' @
         ''</item>'' @
         ''</DIDL-Lite>'')\<close>

text \<open>
  The title handed to the encoder.  The JavaScript wrapper \<open>castToDevice(deviceId, videoUrl,
  title = 'Video')\<close> of \<^verbatim>\<open>index-enhanced.js\<close> applies its default parameter when the
  argument is \<open>undefined\<close> (omitted) and only then; \<open>null\<close> crosses the bridge as a
  \<open>null\<close> string.  The native \<open>castToDeviceWithRetry\<close> then evaluates
  \<open>title != null ? title : "Video"\<close>.
\<close>

datatype js_title = JsUndefined | JsNull | JsString string

definition jsCastTitle :: "js_title \<Rightarrow> string option" where
  "jsCastTitle title =
     (case title of
        JsUndefined \<Rightarrow> Some ''Video''
      | JsNull \<Rightarrow> None
      | JsString t \<Rightarrow> Some t)"

definition safeTitle :: "string option \<Rightarrow> string" where
  "safeTitle title = (case title of Some t \<Rightarrow> t | None \<Rightarrow> ''Video'')"

section \<open>Promise, progress events, dispatcher and registry\<close>

text \<open>
  The native modules act on their surroundings through four channels, each recorded in the
  state: the React Native promise (\<open>promise.resolve\<close>, \<open>promise.reject\<close>), the event
  emitter (\<open>emitCastProgress\<close>), the control point that executes UPnP actions
  (\<open>SetAVTransportURI\<close>, \<open>Play\<close>, \<open>Pause\<close>, \<open>Stop\<close>) and the main looper on which
  delayed runnables are posted.  What the surroundings answer is the environment: whether the
  service is started, what the registry returns for a device identifier, and when and how
  the renderer answers an action.
\<close>

datatype settlement = Resolved | Rejected string string

datatype action = SetAVTransportURI string string | Play | Pause | Stop

record progress_event =
  stage :: string
  message :: string
  deviceName :: string
  timestamp :: nat

datatype outcome = Success | Failure string

text \<open>
  The answer to one executed action: none at all, or the callback
  (\<open>success\<close> or \<open>failure\<close> with its \<open>defaultMsg\<close>) after a latency in milliseconds.
\<close>

datatype reply = NoReply | Reply nat outcome

record device =
  friendlyName :: string
  hasAVTransport :: bool

text \<open>
  \<open>upnpService.getRegistry().getDevice(UDN.valueOf(deviceId), false)\<close>: a device,
  \<open>null\<close>, or an exception with its message.
\<close>

datatype lookup = Found device | NotFound | Threw string

text \<open>
  The environment: \<open>upnpService\<close> says whether the service is started
  (\<open>upnpService != null\<close>); \<open>getDevice\<close> is the registry lookup at a time;
  \<open>setUriReply\<close> and \<open>playReply\<close> give the renderer's answer to the
  \<open>SetAVTransportURI\<close> and the \<open>Play\<close> of an attempt, by attempt number;
  \<open>controlReply\<close> gives its answer to an action of \<open>controlPlayback\<close>;
  \<open>nullPointerMessage\<close> is the message the runtime gives the
  \<open>NullPointerException\<close> it raises when a method is called on \<open>null\<close>.
\<close>

record env =
  upnpService :: bool
  getDevice :: "nat \<Rightarrow> string \<Rightarrow> lookup"
  setUriReply :: "nat \<Rightarrow> reply"
  playReply :: "nat \<Rightarrow> reply"
  controlReply :: "action \<Rightarrow> reply"
  nullPointerMessage :: string

text \<open>
  The closures of \<open>castToDeviceWithRetry\<close>, \<open>retryOrFail\<close> and \<open>controlPlayback\<close> that
  run later, with the variables they capture.  The first number of a cast closure is the
  index of the \<open>operationCompleted\<close> flag its attempt created.
\<close>

datatype task =
    TimeoutRunnable nat string string "string option" nat
  | RetryRunnable string string "string option" nat
  | SetURICallback nat string string "string option" nat string outcome
  | PlayCallback nat string string "string option" nat string outcome
  | ControlCallback outcome

text \<open>
  \<open>clock\<close> is the time in milliseconds; \<open>pending\<close> holds the posted runnables and the
  announced callbacks with their due times, in the order they were added;
  \<open>operationCompleted\<close> holds the flag of every attempt; \<open>promise\<close> lists the calls of
  \<open>resolve\<close> and \<open>reject\<close> in order; \<open>attempts\<close> logs every entry into
  \<open>castToDeviceWithRetry\<close> with its time and attempt number.
\<close>

record state =
  clock :: nat
  pending :: "(nat \<times> task) list"
  operationCompleted :: "bool list"
  promise :: "settlement list"
  emitted :: "progress_event list"
  executed :: "action list"
  attempts :: "(nat \<times> nat) list"

definition initState :: state where
  "initState = \<lparr>clock = 0, pending = [], operationCompleted = [], promise = [],
     emitted = [], executed = [], attempts = []\<rparr>"

text \<open>
  A React Native promise takes the first call of \<open>resolve\<close> or \<open>reject\<close>; later calls
  do not reach the caller.
\<close>

definition promiseResult :: "state \<Rightarrow> settlement option" where
  "promiseResult s = (case promise s of [] \<Rightarrow> None | r # _ \<Rightarrow> Some r)"

definition resolve :: "state \<Rightarrow> state" where
  "resolve s = s\<lparr>promise := promise s @ [Resolved]\<rparr>"

definition reject :: "string \<Rightarrow> string \<Rightarrow> state \<Rightarrow> state" where
  "reject code msg s = s\<lparr>promise := promise s @ [Rejected code msg]\<rparr>"

definition postDelayed :: "task \<Rightarrow> nat \<Rightarrow> state \<Rightarrow> state" where
  "postDelayed r delay s = s\<lparr>pending := pending s @ [(clock s + delay, r)]\<rparr>"

text \<open>\<open>upnpService.getControlPoint().execute(callback)\<close>.\<close>

definition execute :: "action \<Rightarrow> reply \<Rightarrow> (outcome \<Rightarrow> task) \<Rightarrow> state \<Rightarrow> state" where
  "execute act r callback s =
     (let s' = s\<lparr>executed := executed s @ [act]\<rparr>
      in case r of
           NoReply \<Rightarrow> s'
         | Reply latency result \<Rightarrow> postDelayed (callback result) latency s')"

definition emitCastProgress :: "string \<Rightarrow> string \<Rightarrow> string \<Rightarrow> state \<Rightarrow> state" where
  "emitCastProgress stg msg name s =
     s\<lparr>emitted := emitted s @
        [\<lparr>stage = stg, message = msg, deviceName = name, timestamp = clock s\<rparr>]\<rparr>"

text \<open>\<open>operationCompleted.get()\<close> and \<open>operationCompleted.compareAndSet(false, true)\<close>.\<close>

definition getFlag :: "nat \<Rightarrow> state \<Rightarrow> bool" where
  "getFlag i s = (i < length (operationCompleted s) \<and> operationCompleted s ! i)"

definition compareAndSet :: "nat \<Rightarrow> state \<Rightarrow> bool \<times> state" where
  "compareAndSet i s =
     (if getFlag i s then (False, s)
      else (True, s\<lparr>operationCompleted := (operationCompleted s)[i := True]\<rparr>))"

fun isTimeoutOf :: "nat \<Rightarrow> task \<Rightarrow> bool" where
  "isTimeoutOf i (TimeoutRunnable j deviceId videoUrl title attemptNumber) = (i = j)"
| "isTimeoutOf i other = False"

text \<open>\<open>timeoutHandler.removeCallbacks(timeoutRunnable)\<close>.\<close>

definition removeCallbacks :: "nat \<Rightarrow> state \<Rightarrow> state" where
  "removeCallbacks i s = s\<lparr>pending := filter (\<lambda>e. \<not> isTimeoutOf i (snd e)) (pending s)\<rparr>"

section \<open>Cast orchestrator (Android module)\<close>

definition MAX_RETRIES :: nat where
  "MAX_RETRIES = 3"

definition INITIAL_RETRY_DELAY :: nat where
  "INITIAL_RETRY_DELAY = 1000"

definition CAST_TIMEOUT_MS :: nat where
  "CAST_TIMEOUT_MS = 30000"

text \<open>
  \<open>validateVideoUrl\<close> rejects and throws \<open>IllegalArgumentException\<close> (\<open>Inl\<close>, with the
  state after the rejection), or returns (\<open>Inr\<close>, with the url, now known not to be
  \<open>null\<close>).  The warning it logs for an https url has no effect.
\<close>

definition validateVideoUrl :: "string option \<Rightarrow> state \<Rightarrow> state + string \<times> state" where
  "validateVideoUrl url s =
     (case url of
        None \<Rightarrow>
          Inl (reject ''INVALID_URL''
            (''Video URL cannot be empty. '' @ ''Please provide a valid HTTP or HTTPS URL.'') s)
      | Some u \<Rightarrow>
          if u = [] then
            Inl (reject ''INVALID_URL''
              (''Video URL cannot be empty. '' @ ''Please provide a valid HTTP or HTTPS URL.'') s)
          else if \<not> startsWith u ''http://'' \<and> \<not> startsWith u ''https://'' then
            Inl (reject ''INVALID_URL''
              (''Invalid video URL: '' @ [CHR 0x27] @ u @ [CHR 0x27] @ ''. '' @
               ''URL must start with http:// or https://.'') s)
          else Inr (u, s))"

definition retryDelay :: "nat \<Rightarrow> nat" where
  "retryDelay attemptNumber =
     INITIAL_RETRY_DELAY * (if attemptNumber = 0 then 0 else 2 ^ (attemptNumber - 1))"

definition retryOrFail ::
  "string \<Rightarrow> string \<Rightarrow> string option \<Rightarrow> nat \<Rightarrow> string \<Rightarrow> state \<Rightarrow> state" where
  "retryOrFail deviceId videoUrl title attemptNumber errorMsg s =
     (if attemptNumber \<ge> MAX_RETRIES then
        reject ''CAST_FAILED'' (errorMsg @ '' after '' @ decimal MAX_RETRIES @ '' attempts'') s
      else
        postDelayed (RetryRunnable deviceId videoUrl title (attemptNumber + 1))
          (retryDelay attemptNumber) s)"

text \<open>
  The body of \<open>castToDeviceWithRetry\<close> up to the point where it returns: what happens
  later is in the runnables and callbacks it leaves behind.
\<close>

definition castToDeviceWithRetry ::
  "env \<Rightarrow> string \<Rightarrow> string \<Rightarrow> string option \<Rightarrow> nat \<Rightarrow> state \<Rightarrow> state" where
  "castToDeviceWithRetry e deviceId videoUrl title attemptNumber s0 =
     (let s = s0\<lparr>attempts := attempts s0 @ [(clock s0, attemptNumber)]\<rparr>
      in if attemptNumber > MAX_RETRIES then
           reject ''MAX_RETRIES_EXCEEDED''
             (''Failed to cast after '' @ decimal MAX_RETRIES @ '' attempts. '' @
              ''Device may be offline or incompatible. Try restarting the device and discovering again.'')
             s
         else if \<not> upnpService e then
           reject ''SERVICE_NOT_STARTED''
             (''DLNA service not started. Call startService('' @ [CHR 0x27] @ ''Your App Name'' @
              [CHR 0x27] @ '') before casting.'')
             s
         else
           (case getDevice e (clock s) deviceId of
              Threw m \<Rightarrow>
                retryOrFail deviceId videoUrl title attemptNumber
                  (''Network error while casting: '' @ m @ ''. '' @
                   ''Check that both devices are on the same WiFi network.'')
                  s
            | NotFound \<Rightarrow>
                reject ''DEVICE_NOT_FOUND''
                  (''Device with ID '' @ [CHR 0x27] @ deviceId @ [CHR 0x27] @ '' not found. '' @
                   ''Device may have gone offline or discovery needs to be re-run. '' @
                   ''Try calling discoverDevices() again.'')
                  s
            | Found dev \<Rightarrow>
                (let name = friendlyName dev;
                     s1 = emitCastProgress ''connecting'' ''Connecting to device...'' name s
                 in if \<not> hasAVTransport dev then
                      reject ''SERVICE_NOT_AVAILABLE''
                        (''Device '' @ [CHR 0x27] @ name @ [CHR 0x27] @
                         '' does not support AVTransport service. '' @
                         ''This device cannot play media via DLNA. '' @
                         ''Only MediaRenderer devices with AVTransport are supported.'')
                        s1
                    else
                      (let metadata = generateDIDLMetadata videoUrl (safeTitle title);
                           i = length (operationCompleted s1);
                           s2 = s1\<lparr>operationCompleted := operationCompleted s1 @ [False]\<rparr>;
                           s3 = postDelayed
                                  (TimeoutRunnable i deviceId videoUrl title attemptNumber)
                                  CAST_TIMEOUT_MS s2
                       in execute (SetAVTransportURI videoUrl metadata)
                            (setUriReply e attemptNumber)
                            (SetURICallback i deviceId videoUrl title attemptNumber name) s3))))"

text \<open>The \<open>timeoutRunnable\<close> lambda.\<close>

definition timeoutRunnable ::
  "nat \<Rightarrow> string \<Rightarrow> string \<Rightarrow> string option \<Rightarrow> nat \<Rightarrow> state \<Rightarrow> state" where
  "timeoutRunnable i deviceId videoUrl title attemptNumber s =
     (if \<not> getFlag i s then
        retryOrFail deviceId videoUrl title attemptNumber ''Operation timed out'' s
      else s)"

text \<open>\<open>success\<close> and \<open>failure\<close> of the anonymous \<open>SetAVTransportURI\<close> callback.\<close>

definition setURISuccess ::
  "env \<Rightarrow> nat \<Rightarrow> string \<Rightarrow> string \<Rightarrow> string option \<Rightarrow> nat \<Rightarrow> string \<Rightarrow> state \<Rightarrow> state" where
  "setURISuccess e i deviceId videoUrl title attemptNumber name s =
     (let s1 = emitCastProgress ''buffering'' ''Loading media on TV...'' name s
      in execute Play (playReply e attemptNumber)
           (PlayCallback i deviceId videoUrl title attemptNumber name) s1)"

definition setURIFailure ::
  "nat \<Rightarrow> string \<Rightarrow> string \<Rightarrow> string option \<Rightarrow> nat \<Rightarrow> string \<Rightarrow> state \<Rightarrow> state" where
  "setURIFailure i deviceId videoUrl title attemptNumber defaultMsg s =
     (let (won, s1) = compareAndSet i s
      in if won then
           retryOrFail deviceId videoUrl title attemptNumber
             (''Failed to load media: '' @ defaultMsg @ ''. '' @
              ''Check that the URL is accessible from the TV'' @ [CHR 0x27] @ ''s network.'')
             (removeCallbacks i s1)
         else s1)"

text \<open>\<open>success\<close> and \<open>failure\<close> of the anonymous \<open>Play\<close> callback nested in it.\<close>

definition playSuccess :: "nat \<Rightarrow> string \<Rightarrow> state \<Rightarrow> state" where
  "playSuccess i name s =
     (let (won, s1) = compareAndSet i s
      in if won then
           resolve (emitCastProgress ''playing'' ''Media is now playing'' name
             (removeCallbacks i s1))
         else s1)"

definition playFailure ::
  "nat \<Rightarrow> string \<Rightarrow> string \<Rightarrow> string option \<Rightarrow> nat \<Rightarrow> string \<Rightarrow> state \<Rightarrow> state" where
  "playFailure i deviceId videoUrl title attemptNumber defaultMsg s =
     (let (won, s1) = compareAndSet i s
      in if won then
           retryOrFail deviceId videoUrl title attemptNumber
             (''Play command failed: '' @ defaultMsg @ ''. '' @
              ''Device may not support the media format or is busy.'')
             (removeCallbacks i s1)
         else s1)"

fun runTask :: "env \<Rightarrow> task \<Rightarrow> state \<Rightarrow> state" where
  "runTask e (TimeoutRunnable i deviceId videoUrl title attemptNumber) s =
     timeoutRunnable i deviceId videoUrl title attemptNumber s"
| "runTask e (RetryRunnable deviceId videoUrl title attemptNumber) s =
     castToDeviceWithRetry e deviceId videoUrl title attemptNumber s"
| "runTask e (SetURICallback i deviceId videoUrl title attemptNumber name Success) s =
     setURISuccess e i deviceId videoUrl title attemptNumber name s"
| "runTask e (SetURICallback i deviceId videoUrl title attemptNumber name (Failure m)) s =
     setURIFailure i deviceId videoUrl title attemptNumber m s"
| "runTask e (PlayCallback i deviceId videoUrl title attemptNumber name Success) s =
     playSuccess i name s"
| "runTask e (PlayCallback i deviceId videoUrl title attemptNumber name (Failure m)) s =
     playFailure i deviceId videoUrl title attemptNumber m s"
| "runTask e (ControlCallback Success) s = resolve s"
| "runTask e (ControlCallback (Failure m)) s = reject ''ACTION_FAILED'' m s"

text \<open>
  The pending entry that runs next: the one due first, and among entries due at the same
  time the one added first.  Each entry runs to its end before the next one starts, and the
  clock stands at its due time while it runs.
\<close>

fun nextTask :: "(nat \<times> task) list \<Rightarrow> (nat \<times> task) option" where
  "nextTask [] = None"
| "nextTask (x # q) =
     (case nextTask q of
        None \<Rightarrow> Some x
      | Some y \<Rightarrow> if fst x \<le> fst y then Some x else Some y)"

definition step :: "env \<Rightarrow> state \<Rightarrow> state" where
  "step e s =
     (case nextTask (pending s) of
        None \<Rightarrow> s
      | Some x \<Rightarrow> runTask e (snd x) (s\<lparr>clock := fst x, pending := remove1 x (pending s)\<rparr>))"

section \<open>The event loop\<close>

text \<open>
  \<open>run\<close> executes the pending runnables and callbacks until none is left.  It ends
  because every entry carries a bounded amount of future work: an attempt leaves a timeout
  and at most one callback behind, each of them schedules at most one later attempt, and
  \<open>retryOrFail\<close> schedules none from attempt \<open>MAX_RETRIES\<close> on.
\<close>

fun budget :: "nat \<Rightarrow> nat" where
  "budget 0 = 4"
| "budget (Suc d) = 2 * budget d + 4"

definition afterFailure :: "nat \<Rightarrow> nat" where
  "afterFailure attemptNumber =
     (if attemptNumber < MAX_RETRIES then budget (MAX_RETRIES - (attemptNumber + 1)) else 0)"

fun weight :: "task \<Rightarrow> nat" where
  "weight (RetryRunnable deviceId videoUrl title attemptNumber) = budget (MAX_RETRIES - attemptNumber)"
| "weight (TimeoutRunnable i deviceId videoUrl title attemptNumber) = afterFailure attemptNumber + 1"
| "weight (SetURICallback i deviceId videoUrl title attemptNumber name r) = afterFailure attemptNumber + 2"
| "weight (PlayCallback i deviceId videoUrl title attemptNumber name r) = afterFailure attemptNumber + 1"
| "weight (ControlCallback r) = 1"

definition workload :: "(nat \<times> task) list \<Rightarrow> nat" where
  "workload q = sum_list (map (\<lambda>x. weight (snd x)) q)"

text \<open>The loop itself.\<close>

function run :: "env \<Rightarrow> state \<Rightarrow> state" where
  "run e s = (if pending s = [] then s else run e (step e s))"
  by pat_completeness auto

section \<open>Entry points\<close>

text \<open>\<open>castToDevice\<close>, the exported method, up to its return.\<close>

definition castToDevice ::
  "env \<Rightarrow> string \<Rightarrow> string option \<Rightarrow> string option \<Rightarrow> state \<Rightarrow> state" where
  "castToDevice e deviceId videoUrl title s =
     (case validateVideoUrl videoUrl s of
        Inl s' \<Rightarrow> s'
      | Inr (u, s') \<Rightarrow> castToDeviceWithRetry e deviceId u title 1 s')"

text \<open>A whole cast call: the exported method, then everything it left pending.\<close>

definition cast :: "env \<Rightarrow> string \<Rightarrow> string option \<Rightarrow> string option \<Rightarrow> state" where
  "cast e deviceId videoUrl title = run e (castToDevice e deviceId videoUrl title initState)"

text \<open>
  \<open>controlPlayback\<close> of the Android module, up to its return.  The action may be
  \<open>null\<close> (the JavaScript wrapper hands its argument on as it is): then
  \<open>action.toLowerCase()\<close> raises a \<open>NullPointerException\<close> inside the \<open>try\<close>, and
  the \<open>catch\<close> rejects with \<open>CONTROL_ERROR\<close>.
\<close>

definition controlPlayback :: "env \<Rightarrow> string \<Rightarrow> string option \<Rightarrow> state \<Rightarrow> state" where
  "controlPlayback e deviceId action s =
     (if \<not> upnpService e then
        reject ''SERVICE_NOT_STARTED''
          (''DLNA service not started. Call startService('' @ [CHR 0x27] @ ''Your App Name'' @
           [CHR 0x27] @ '') before controlling playback.'')
          s
      else
        (case getDevice e (clock s) deviceId of
           Threw m \<Rightarrow>
             reject ''CONTROL_ERROR''
               (''Failed to control playback: '' @ m @ ''. '' @
                ''Device may be offline or unreachable.'')
               s
         | NotFound \<Rightarrow>
             reject ''DEVICE_NOT_FOUND''
               (''Device with ID '' @ [CHR 0x27] @ deviceId @ [CHR 0x27] @ '' not found. '' @
                ''Device may have gone offline. Try discovering devices again.'')
               s
         | Found dev \<Rightarrow>
             if \<not> hasAVTransport dev then
               reject ''SERVICE_NOT_AVAILABLE''
                 (''Device '' @ [CHR 0x27] @ friendlyName dev @ [CHR 0x27] @
                  '' does not support AVTransport service. '' @
                  ''Cannot control playback on this device.'')
                 s
             else
               (case action of
                  None \<Rightarrow>
                    reject ''CONTROL_ERROR''
                      (''Failed to control playback: '' @ nullPointerMessage e @ ''. '' @
                       ''Device may be offline or unreachable.'')
                      s
                | Some act \<Rightarrow>
                    if toLowerCase act = ''play'' then
                      execute Play (controlReply e Play) ControlCallback s
                    else if toLowerCase act = ''pause'' then
                      execute Pause (controlReply e Pause) ControlCallback s
                    else if toLowerCase act = ''stop'' then
                      execute Stop (controlReply e Stop) ControlCallback s
                    else
                      reject ''INVALID_ACTION''
                        (''Invalid action: '' @ [CHR 0x27] @ act @ [CHR 0x27] @ ''. '' @
                         ''Valid actions are: '' @ [CHR 0x27] @ ''play'' @ [CHR 0x27] @ '', '' @
                         [CHR 0x27] @ ''pause'' @ [CHR 0x27] @ '', '' @
                         [CHR 0x27] @ ''stop'' @ [CHR 0x27] @ ''.'')
                        s)))"

text \<open>A whole control call: the exported method, then the callback it left pending.\<close>

definition control :: "env \<Rightarrow> string \<Rightarrow> string option \<Rightarrow> state" where
  "control e deviceId action = run e (controlPlayback e deviceId action initState)"

section \<open>Playback control (iOS module)\<close>

text \<open>
  \<open>controlPlayback\<close> of \<^verbatim>\<open>RNByronDLNAEnhanced.mm\<close>, device build.  The media
  controller's calls return their \<open>NPT_Result\<close> at once: \<open>nptSucceeded\<close> says, for an
  action, whether that result is a success.  \<open>iosInvoke\<close> is the call of the media
  controller in a branch of the comparison chain together with the test of its result that
  follows the chain.  For an action that is \<open>nil\<close> every \<open>isEqualToString:\<close> answers
  \<open>NO\<close>, and the message prints it as \<open>(null)\<close>.
\<close>

record ios_env =
  mediaController :: bool
  discoveredDevices :: "string \<Rightarrow> device option"
  nptSucceeded :: "action \<Rightarrow> bool"

definition iosInvoke :: "ios_env \<Rightarrow> string \<Rightarrow> device \<Rightarrow> action \<Rightarrow> state \<Rightarrow> state" where
  "iosInvoke e act dev a s =
     (let s1 = s\<lparr>executed := executed s @ [a]\<rparr>
      in if \<not> nptSucceeded e a then
           reject ''ACTION_FAILED''
             (''Failed to execute action '' @ [CHR 0x27] @ act @ [CHR 0x27] @ '' on device '' @
              [CHR 0x27] @ friendlyName dev @ [CHR 0x27] @
              ''. Device may be offline or unreachable.'')
             s1
         else resolve s1)"

definition iosControlPlayback ::
  "ios_env \<Rightarrow> string \<Rightarrow> string option \<Rightarrow> state \<Rightarrow> state" where
  "iosControlPlayback e deviceId action s =
     (if \<not> mediaController e then
        reject ''CONTROLLER_NOT_INITIALIZED''
          (''Media controller not initialized. Call startService('' @ [CHR 0x27] @
           ''Your App Name'' @ [CHR 0x27] @ '') first.'')
          s
      else
        (case discoveredDevices e deviceId of
           None \<Rightarrow>
             reject ''DEVICE_NOT_FOUND''
               (''Device with ID '' @ [CHR 0x27] @ deviceId @ [CHR 0x27] @ '' not found. '' @
                ''Device may have gone offline. Try discovering devices again.'')
               s
         | Some dev \<Rightarrow>
             if action = Some ''play'' then iosInvoke e ''play'' dev Play s
             else if action = Some ''pause'' then iosInvoke e ''pause'' dev Pause s
             else if action = Some ''stop'' then iosInvoke e ''stop'' dev Stop s
             else
               reject ''INVALID_ACTION''
                 (''Invalid action: '' @ [CHR 0x27] @
                  (case action of None \<Rightarrow> ''(null)'' | Some act \<Rightarrow> act) @ [CHR 0x27] @ ''. '' @
                  ''Valid actions are: '' @ [CHR 0x27] @ ''play'' @ [CHR 0x27] @ '', '' @
                  [CHR 0x27] @ ''pause'' @ [CHR 0x27] @ '', '' @
                  [CHR 0x27] @ ''stop'' @ [CHR 0x27] @ ''.'')
                 s))"

section \<open>Notions of the specification\<close>

text \<open>
  The definitions of this section are not code of the repository: they say, in the words of
  the specification, what the claims below compare the code with, and they read results off
  the values the code produces.
\<close>

text \<open>The entity the specification assigns to each character.\<close>

definition xmlEntity :: "char \<Rightarrow> string" where
  \<open>xmlEntity c =
     (if c = CHR ''&'' then ''&amp;''
      else if c = CHR ''<'' then ''&lt;''
      else if c = CHR ''>'' then ''&gt;''
      else if c = CHR ''"'' then ''&quot;''
      else if c = CHR 0x27 then ''&apos;''
      else [c])\<close>

text \<open>The content descriptor rule of the specification, in its priority order.\<close>

datatype descriptor = AdaptiveStreaming | Mp4 | GenericVideo

definition contentDescriptor :: "string \<Rightarrow> descriptor" where
  "contentDescriptor url =
     (if suffix ''.m3u8'' url \<or> sublist ''.m3u8?'' url then AdaptiveStreaming
      else if suffix ''.mp4'' url then Mp4
      else GenericVideo)"

fun descriptorText :: "descriptor \<Rightarrow> string" where
  "descriptorText AdaptiveStreaming = ''http-get:*:application/vnd.apple.mpegurl:*''"
| "descriptorText Mp4 = ''http-get:*:video/mp4:*''"
| "descriptorText GenericVideo = ''http-get:*:video/*:*''"

text \<open>
  Reading a metadata document: the text that follows the first occurrence of a pattern,
  the content of the title element, and the value of the \<open>protocolInfo\<close> attribute.
\<close>

fun afterFirst :: "string \<Rightarrow> string \<Rightarrow> string option" where
  "afterFirst [] pat = (if pat = [] then Some [] else None)"
| "afterFirst (c # cs) pat =
     (if startsWith (c # cs) pat then Some (drop (length pat) (c # cs)) else afterFirst cs pat)"

definition dcTitle :: "string \<Rightarrow> string option" where
  "dcTitle doc =
     (case afterFirst doc ''<dc:title>'' of
        None \<Rightarrow> None
      | Some r \<Rightarrow> Some (takeWhile (\<lambda>c. c \<noteq> CHR ''<'') r))"

definition resProtocolInfo :: "string \<Rightarrow> string option" where
  \<open>resProtocolInfo doc =
     (case afterFirst doc ''protocolInfo="'' of
        None \<Rightarrow> None
      | Some r \<Rightarrow> Some (takeWhile (\<lambda>c. c \<noteq> CHR ''"'') r))\<close>

text \<open>The failure kind the caller receives: the code of the rejection, if the call was rejected.\<close>

definition failureKind :: "state \<Rightarrow> string option" where
  "failureKind s =
     (case promiseResult s of
        Some (Rejected code msg) \<Rightarrow> Some code
      | Some Resolved \<Rightarrow> None
      | None \<Rightarrow> None)"

text \<open>A url the specification accepts: not empty, and beginning with one of the two schemes.\<close>

definition acceptedUrl :: "string option \<Rightarrow> bool" where
  "acceptedUrl url =
     (case url of
        None \<Rightarrow> False
      | Some u \<Rightarrow> u \<noteq> [] \<and> (prefix ''http://'' u \<or> prefix ''https://'' u))"

text \<open>
  Two strings that differ at most in the case of their letters: they have the same length,
  and at each position the characters are equal or one is a capital letter, \<open>A\<close> to
  \<open>Z\<close>, and the other the small letter 32 code points above it.  \<open>actionIgnoringCase\<close>
  is the action a string names when case is ignored.
\<close>

definition isUpper :: "char \<Rightarrow> bool" where
  "isUpper c = ((65::nat) \<le> of_char c \<and> of_char c \<le> (90::nat))"

definition sameLetter :: "char \<Rightarrow> char \<Rightarrow> bool" where
  "sameLetter c d =
     (c = d \<or>
      (isUpper c \<and> (of_char d :: nat) = of_char c + 32) \<or>
      (isUpper d \<and> (of_char c :: nat) = of_char d + 32))"

definition sameIgnoringCase :: "string \<Rightarrow> string \<Rightarrow> bool" where
  "sameIgnoringCase a b = list_all2 sameLetter a b"

text \<open>The three literal actions of the specification.\<close>

definition actionOf :: "string \<Rightarrow> action option" where
  "actionOf a =
     (if a = ''play'' then Some Play
      else if a = ''pause'' then Some Pause
      else if a = ''stop'' then Some Stop
      else None)"

definition actionIgnoringCase :: "string \<Rightarrow> action option" where
  "actionIgnoringCase a =
     (if sameIgnoringCase a ''play'' then Some Play
      else if sameIgnoringCase a ''pause'' then Some Pause
      else if sameIgnoringCase a ''stop'' then Some Stop
      else None)"

section \<open>Scenarios\<close>

text \<open>
  Concrete surroundings for the closed theorems below.  One renderer, \<open>TV\<close>, with the
  AVTransport service.
\<close>

definition tv :: device where
  "tv = \<lparr>friendlyName = ''TV'', hasAVTransport = True\<rparr>"

text \<open>A registry that knows no device.\<close>

definition absentEnv :: env where
  "absentEnv = \<lparr>upnpService = True, getDevice = (\<lambda>t d. NotFound),
     setUriReply = (\<lambda>n. NoReply), playReply = (\<lambda>n. NoReply),
     controlReply = (\<lambda>a. NoReply), nullPointerMessage = ''null''\<rparr>"

text \<open>A renderer that answers every control action with success after 100 ms.\<close>

definition idleEnv :: env where
  "idleEnv = \<lparr>upnpService = True, getDevice = (\<lambda>t d. Found tv),
     setUriReply = (\<lambda>n. NoReply), playReply = (\<lambda>n. NoReply),
     controlReply = (\<lambda>a. Reply 100 Success), nullPointerMessage = ''null''\<rparr>"

definition iosTvEnv :: ios_env where
  "iosTvEnv = \<lparr>mediaController = True, discoveredDevices = (\<lambda>d. Some tv),
     nptSucceeded = (\<lambda>a. True)\<rparr>"

text \<open>A renderer that refuses every \<open>SetAVTransportURI\<close> after 100 ms.\<close>

definition busyEnv :: env where
  "busyEnv = \<lparr>upnpService = True, getDevice = (\<lambda>t d. Found tv),
     setUriReply = (\<lambda>n. Reply 100 (Failure ''busy'')),
     playReply = (\<lambda>n. Reply 100 Success),
     controlReply = (\<lambda>a. NoReply), nullPointerMessage = ''null''\<rparr>"

text \<open>
  A renderer whose refusal of the first \<open>SetAVTransportURI\<close> arrives after 45 s, past the
  deadline of 30 s, and that refuses the later ones after 100 ms.
\<close>

definition lateFailureEnv :: env where
  "lateFailureEnv = \<lparr>upnpService = True, getDevice = (\<lambda>t d. Found tv),
     setUriReply =
       (\<lambda>n. if n = 1 then Reply 45000 (Failure ''busy'') else Reply 100 (Failure ''busy'')),
     playReply = (\<lambda>n. Reply 100 Success),
     controlReply = (\<lambda>a. NoReply), nullPointerMessage = ''null''\<rparr>"

text \<open>
  A renderer that refuses \<open>SetAVTransportURI\<close> on attempts 1 and 2 and accepts it on
  attempt 3, and accepts \<open>Play\<close>.  The refusal of attempt 1 takes \<open>firstLatency\<close>
  milliseconds, every other answer 100 ms.
\<close>

definition thirdTimeEnv :: "nat \<Rightarrow> env" where
  "thirdTimeEnv firstLatency = \<lparr>upnpService = True, getDevice = (\<lambda>t d. Found tv),
     setUriReply =
       (\<lambda>n. if n = 1 then Reply firstLatency (Failure ''busy'')
            else if n = 2 then Reply 100 (Failure ''busy'')
            else Reply 100 Success),
     playReply = (\<lambda>n. Reply 100 Success),
     controlReply = (\<lambda>a. NoReply), nullPointerMessage = ''null''\<rparr>"

text \<open>
  A renderer that accepts everything, the first \<open>SetAVTransportURI\<close> after 30.5 s, half a
  second past the deadline, everything else after 100 ms.
\<close>

definition lateSuccessEnv :: env where
  "lateSuccessEnv = \<lparr>upnpService = True, getDevice = (\<lambda>t d. Found tv),
     setUriReply = (\<lambda>n. if n = 1 then Reply 30500 Success else Reply 100 Success),
     playReply = (\<lambda>n. Reply 100 Success),
     controlReply = (\<lambda>a. NoReply), nullPointerMessage = ''null''\<rparr>"

section \<open>The retry budget\<close>

text \<open>
  An invariant of the event loop: no pending retry carries an attempt number above
  \<open>MAX_RETRIES\<close>, and the promise was never rejected with \<open>MAX_RETRIES_EXCEEDED\<close>.
\<close>

fun withinBudget :: "task \<Rightarrow> bool" where
  "withinBudget (RetryRunnable deviceId videoUrl title attemptNumber) = (attemptNumber \<le> MAX_RETRIES)"
| "withinBudget other = True"

fun notExceeded :: "settlement \<Rightarrow> bool" where
  "notExceeded (Rejected code msg) = (code \<noteq> ''MAX_RETRIES_EXCEEDED'')"
| "notExceeded Resolved = True"

definition inBudget :: "state \<Rightarrow> bool" where
  "inBudget s = (list_all (\<lambda>x. withinBudget (snd x)) (pending s) \<and> list_all notExceeded (promise s))"

section \<open>Termination of the event loop\<close>

lemma workload_append [simp]: "workload (q @ r) = workload q + workload r"
  by (simp add: workload_def)

lemma workload_single [simp]: "workload [x] = weight (snd x)"
  by (simp add: workload_def)

lemma workload_filter: "workload (filter P q) \<le> workload q"
  by (induction q) (simp_all add: workload_def)

lemma nextTask_mem: "nextTask q = Some x \<Longrightarrow> x \<in> set q"
  by (induction q arbitrary: x) (auto split: option.splits if_splits)

lemma nextTask_None: "nextTask q = None \<Longrightarrow> q = []"
  by (cases q) (auto split: option.splits if_splits)

lemma workload_remove1: "x \<in> set q \<Longrightarrow> workload q = weight (snd x) + workload (remove1 x q)"
  by (induction q) (auto simp: workload_def)

lemma budget_step: "n < MAX_RETRIES \<Longrightarrow> budget (MAX_RETRIES - n) = 2 * afterFailure n + 4"
proof -
  assume "n < MAX_RETRIES"
  then have "MAX_RETRIES - n = Suc (MAX_RETRIES - (n + 1))" by simp
  then show ?thesis using \<open>n < MAX_RETRIES\<close> by (simp add: afterFailure_def)
qed

lemma budget_last: "\<not> n < MAX_RETRIES \<Longrightarrow> budget (MAX_RETRIES - n) = 2 * afterFailure n + 4"
  by (simp add: afterFailure_def)

lemma budget_eq: "budget (MAX_RETRIES - n) = 2 * afterFailure n + 4"
  using budget_step budget_last by blast

lemma retryOrFail_workload:
  "workload (pending (retryOrFail d u t n m s)) \<le> workload (pending s) + afterFailure n"
  by (simp add: retryOrFail_def reject_def postDelayed_def afterFailure_def)

lemma removeCallbacks_workload: "workload (pending (removeCallbacks i s)) \<le> workload (pending s)"
  by (simp add: removeCallbacks_def workload_filter)

lemma compareAndSet_pending: "pending (snd (compareAndSet i s)) = pending s"
  by (simp add: compareAndSet_def)

lemma execute_workload:
  "workload (pending (execute a r cb s)) \<le> workload (pending s) + (case r of NoReply \<Rightarrow> 0 | Reply l out \<Rightarrow> weight (cb out))"
  by (simp add: execute_def postDelayed_def Let_def split: reply.splits)

lemma castToDeviceWithRetry_workload:
  "workload (pending (castToDeviceWithRetry e d u t n s)) < workload (pending s) + budget (MAX_RETRIES - n)"
proof -
  let ?s = "s\<lparr>attempts := attempts s @ [(clock s, n)]\<rparr>"
  have r: "workload (pending (retryOrFail d u t n m ?s)) \<le> workload (pending s) + afterFailure n" for m
    using retryOrFail_workload [of d u t n m ?s] by simp
  have x: "workload (pending (execute a rp (SetURICallback i d u t n nm) s'))
             \<le> workload (pending s') + (afterFailure n + 2)" for a rp i nm s'
    using execute_workload [of a rp "SetURICallback i d u t n nm" s']
    by (cases rp) simp_all
  show ?thesis
    unfolding budget_eq castToDeviceWithRetry_def Let_def
    apply (simp add: reject_def split: lookup.splits)
    apply (intro conjI impI allI)
      apply (simp add: emitCastProgress_def)
     apply (rule le_less_trans [OF x])
     apply (simp add: postDelayed_def emitCastProgress_def)
    apply (rule le_less_trans [OF r])
    apply simp
    done
qed

lemma timeoutRunnable_workload:
  "workload (pending (timeoutRunnable i d u t n s)) < workload (pending s) + (afterFailure n + 1)"
  using retryOrFail_workload [of d u t n "''Operation timed out''" s]
  by (simp add: timeoutRunnable_def)

lemma setURISuccess_workload:
  "workload (pending (setURISuccess e i d u t n nm s)) < workload (pending s) + (afterFailure n + 2)"
  using execute_workload [of Play "playReply e n" "PlayCallback i d u t n nm"
      "emitCastProgress ''buffering'' ''Loading media on TV...'' nm s"]
  by (cases "playReply e n") (simp_all add: setURISuccess_def Let_def emitCastProgress_def)

lemma after_claim_workload:
  "workload (pending (retryOrFail d u t n m (removeCallbacks i (snd (compareAndSet i s)))))
     \<le> workload (pending s) + afterFailure n"
  using retryOrFail_workload [of d u t n m "removeCallbacks i (snd (compareAndSet i s))"]
    removeCallbacks_workload [of i "snd (compareAndSet i s)"]
  by (simp add: compareAndSet_pending)

lemma setURIFailure_workload:
  "workload (pending (setURIFailure i d u t n m s)) < workload (pending s) + (afterFailure n + 2)"
proof (cases "fst (compareAndSet i s)")
  case True
  then show ?thesis
    unfolding setURIFailure_def split_beta Let_def
    by (simp only: if_True) (rule le_less_trans [OF after_claim_workload], simp)
next
  case False
  then show ?thesis
    by (simp add: setURIFailure_def split_beta compareAndSet_pending)
qed

lemma playFailure_workload:
  "workload (pending (playFailure i d u t n m s)) < workload (pending s) + (afterFailure n + 1)"
proof (cases "fst (compareAndSet i s)")
  case True
  then show ?thesis
    unfolding playFailure_def split_beta Let_def
    by (simp only: if_True) (rule le_less_trans [OF after_claim_workload], simp)
next
  case False
  then show ?thesis
    by (simp add: playFailure_def split_beta compareAndSet_pending)
qed

lemma playSuccess_workload:
  "workload (pending (playSuccess i nm s)) < workload (pending s) + (afterFailure n + 1)"
  using removeCallbacks_workload [of i "snd (compareAndSet i s)"]
  by (simp add: playSuccess_def split_beta compareAndSet_pending resolve_def emitCastProgress_def)

lemma runTask_workload:
  "workload (pending (runTask e k s)) < workload (pending s) + weight k"
proof (cases k)
  case (TimeoutRunnable i d u t n)
  then show ?thesis using timeoutRunnable_workload [of i d u t n s] by simp
next
  case (RetryRunnable d u t n)
  then show ?thesis using castToDeviceWithRetry_workload [of e d u t n s] by simp
next
  case (SetURICallback i d u t n nm r)
  then show ?thesis
    using setURISuccess_workload [of e i d u t n nm s] setURIFailure_workload [of i d u t n _ s]
    by (cases r) simp_all
next
  case (PlayCallback i d u t n nm r)
  then show ?thesis
    using playSuccess_workload [of i nm s n] playFailure_workload [of i d u t n _ s]
    by (cases r) simp_all
next
  case (ControlCallback r)
  then show ?thesis by (cases r) (simp_all add: resolve_def reject_def)
qed

lemma step_workload:
  assumes "pending s \<noteq> []"
  shows "workload (pending (step e s)) < workload (pending s)"
proof -
  obtain x where x: "nextTask (pending s) = Some x"
    using assms nextTask_None by (cases "nextTask (pending s)") auto
  then have "x \<in> set (pending s)" by (rule nextTask_mem)
  then have "workload (pending s) = weight (snd x) + workload (remove1 x (pending s))"
    by (rule workload_remove1)
  moreover have "workload (pending (step e s)) < workload (remove1 x (pending s)) + weight (snd x)"
    using runTask_workload [of e "snd x" "s\<lparr>clock := fst x, pending := remove1 x (pending s)\<rparr>"] x
    by (simp add: step_def)
  ultimately show ?thesis by simp
qed

termination run
  by (relation "measure (\<lambda>(e, s). workload (pending s))") (simp_all add: step_workload)

declare run.simps [simp del]

section \<open>String library facts\<close>

lemma startsWith_prefix: "startsWith s p = prefix p s"
  by (induction s p rule: startsWith.induct) auto

lemma endsWith_suffix: "endsWith s suf = suffix suf s"
  by (simp add: endsWith_def startsWith_prefix suffix_to_prefix)

lemma contains_sublist: "contains s sub = sublist sub s"
  by (induction s) (simp_all add: startsWith_prefix sublist_Cons_right)

lemma replace_single:
  "replace s [a] rep = concat (map (\<lambda>c. if c = a then rep else [c]) s)"
  by (induction s) simp_all

lemma concat_map_twice:
  "concat (map g (concat (map f s))) = concat (map (\<lambda>c. concat (map g (f c))) s)"
  by (induction s) simp_all

lemma takeWhile_upto: "x \<notin> set a \<Longrightarrow> takeWhile (\<lambda>c. c \<noteq> x) (a @ x # b) = a"
  by (induction a) auto

lemma takeWhile_past:
  "x \<notin> set a \<Longrightarrow> takeWhile (\<lambda>c. c \<noteq> x) (a @ b) = a @ takeWhile (\<lambda>c. c \<noteq> x) b"
  by (induction a) auto

lemma startsWith_takeWhile:
  assumes "startsWith s (p @ [q])" and "q \<notin> set p"
  shows "takeWhile (\<lambda>c. c \<noteq> q) s = p"
proof -
  from assms(1) obtain r where "s = (p @ [q]) @ r"
    unfolding startsWith_prefix prefix_def by blast
  then have "s = p @ q # r" by simp
  with assms(2) show ?thesis by (simp add: takeWhile_upto)
qed

text \<open>
  A pattern that ends in a character \<open>q\<close> it has nowhere else does not begin inside a text
  without \<open>q\<close>, when the next \<open>q\<close> after that text is further away than the pattern is long.
\<close>

lemma afterFirst_skip:
  assumes "q \<notin> set p" and "q \<notin> set a"
    and "length p < length (takeWhile (\<lambda>c. c \<noteq> q) rest)"
  shows "afterFirst (a @ rest) (p @ [q]) = afterFirst rest (p @ [q])"
  using assms(2)
proof (induction a)
  case Nil
  then show ?case by simp
next
  case (Cons c a)
  have "\<not> startsWith (c # a @ rest) (p @ [q])"
  proof
    assume "startsWith (c # a @ rest) (p @ [q])"
    then have "takeWhile (\<lambda>c. c \<noteq> q) (c # a @ rest) = p"
      using assms(1) by (rule startsWith_takeWhile)
    moreover have "takeWhile (\<lambda>c. c \<noteq> q) (c # a @ rest) = c # a @ takeWhile (\<lambda>c. c \<noteq> q) rest"
      using takeWhile_past [OF Cons.prems, of rest] by simp
    ultimately have "length p = Suc (length a + length (takeWhile (\<lambda>c. c \<noteq> q) rest))"
      by (metis length_Cons length_append)
    with assms(3) show False by simp
  qed
  with Cons show ?case by simp
qed

section \<open>The metadata encoder\<close>

text \<open>
  The five chained replacements of \<open>escapeXml\<close> amount to replacing every character by
  its entity.  The ampersand comes first: replaced later, it would also hit the ampersands
  of the entities already written.
\<close>

lemma escapeXml_entities: "escapeXml (Some t) = concat (map xmlEntity t)"
proof -
  have "\<And>c. concat (map (\<lambda>c. if c = CHR 0x27 then ''&apos;'' else [c])
          (concat (map (\<lambda>c. if c = CHR 0x22 then ''&quot;'' else [c])
          (concat (map (\<lambda>c. if c = CHR ''>'' then ''&gt;'' else [c])
          (concat (map (\<lambda>c. if c = CHR ''<'' then ''&lt;'' else [c])
             (if c = CHR ''&'' then ''&amp;'' else [c])))))))) = xmlEntity c"
    by (simp add: xmlEntity_def)
  then show ?thesis
    by (simp add: escapeXml_def replace_single concat_map_twice)
qed

lemma metadata_layout:
  \<open>generateDIDLMetadata url title =
     ''<DIDL-Lite xmlns="urn:schemas-upnp-org:metadata-1-0/DIDL-Lite/" xmlns:dc="http://purl.org/dc/elements/1.1/" xmlns:upnp="urn:schemas-upnp-org:metadata-1-0/upnp/" xmlns:dlna="urn:schemas-dlna-org:metadata-1-0/"><item id="1" parentID="0" restricted="1"><dc:title>'' @
     concat (map xmlEntity title) @
     ''</dc:title><upnp:class>object.item.videoItem</upnp:class><res protocolInfo="'' @
     protocolInfo url @ ''">'' @
     concat (map xmlEntity url) @
     ''</res></item></DIDL-Lite>''\<close>
  by (simp add: generateDIDLMetadata_def escapeXml_entities)

lemma xmlEntity_no_lt: "CHR ''<'' \<notin> set (xmlEntity c)"
  by (simp add: xmlEntity_def)

lemma escaped_no_lt: "CHR ''<'' \<notin> set (concat (map xmlEntity t))"
  by (induction t) (simp_all add: xmlEntity_no_lt)

lemma xmlEntity_no_dquote: \<open>CHR ''"'' \<notin> set (xmlEntity c)\<close>
  by (simp add: xmlEntity_def)

lemma escaped_no_dquote: \<open>CHR ''"'' \<notin> set (concat (map xmlEntity t))\<close>
  by (induction t) (simp_all add: xmlEntity_no_dquote)

lemma protocolInfo_no_dquote: \<open>CHR ''"'' \<notin> set (protocolInfo url)\<close>
  by (simp add: protocolInfo_def)

lemma dcTitle_metadata: "dcTitle (generateDIDLMetadata url title) = Some (concat (map xmlEntity title))"
  using takeWhile_upto [OF escaped_no_lt, of title]
  by (simp add: metadata_layout dcTitle_def)

lemmas skip_title =
  afterFirst_skip [of "CHR 0x22" "''protocolInfo=''", OF _ escaped_no_dquote, simplified]

lemma resProtocolInfo_metadata:
  "resProtocolInfo (generateDIDLMetadata url title) = Some (protocolInfo url)"
  using takeWhile_upto [OF protocolInfo_no_dquote, of url]
  by (simp add: metadata_layout resProtocolInfo_def skip_title)

lemma protocolInfo_descriptor: "protocolInfo url = descriptorText (contentDescriptor url)"
  by (simp add: protocolInfo_def contentDescriptor_def endsWith_suffix contains_sublist)

text \<open>
  C7.  For every url and title, the document the encoder produces embeds the title and the
  url in escaped form only: each of the characters \<open>&\<close>, \<open><\<close>, \<open>>\<close>, the double quote
  and the apostrophe of the input stands in the output as its entity, every other character
  as itself, and an entity written for one character is not escaped again.
\<close>

theorem generateDIDLMetadata_escapes:
  \<open>escapeXml (Some title) = concat (map xmlEntity title) \<and>
   escapeXml (Some url) = concat (map xmlEntity url) \<and>
   generateDIDLMetadata url title =
     ''<DIDL-Lite xmlns="urn:schemas-upnp-org:metadata-1-0/DIDL-Lite/" xmlns:dc="http://purl.org/dc/elements/1.1/" xmlns:upnp="urn:schemas-upnp-org:metadata-1-0/upnp/" xmlns:dlna="urn:schemas-dlna-org:metadata-1-0/"><item id="1" parentID="0" restricted="1"><dc:title>'' @
     concat (map xmlEntity title) @
     ''</dc:title><upnp:class>object.item.videoItem</upnp:class><res protocolInfo="'' @
     protocolInfo url @ ''">'' @
     concat (map xmlEntity url) @
     ''</res></item></DIDL-Lite>''\<close>
  using metadata_layout [of url title] by (simp add: escapeXml_entities)

text \<open>
  C8.  For every url, the descriptor is chosen from the raw url in the priority order of
  the specification: adaptive streaming when the url ends with \<open>.m3u8\<close> or contains
  \<open>.m3u8?\<close>, otherwise MP4 when it ends with \<open>.mp4\<close>, otherwise generic video; and
  this descriptor is the \<open>protocolInfo\<close> attribute of the document.
\<close>

theorem descriptor_by_priority:
  "protocolInfo url = descriptorText (contentDescriptor url) \<and>
   resProtocolInfo (generateDIDLMetadata url title) = Some (descriptorText (contentDescriptor url))"
  by (simp add: resProtocolInfo_metadata protocolInfo_descriptor)

text \<open>
  C9, as stated: whenever the title argument of the cast call is the empty string, the
  title element of the document is \<open>Video\<close>.  It is not: the empty string is a title
  like any other, and the title element is empty.
\<close>

theorem empty_title_not_defaulted:
  "dcTitle (generateDIDLMetadata ''http://tv/a.mp4'' (safeTitle (jsCastTitle (JsString [])))) =
     Some [] \<and>
   dcTitle (generateDIDLMetadata ''http://tv/a.mp4'' (safeTitle (jsCastTitle (JsString [])))) \<noteq>
     Some ''Video''"
  by (simp add: dcTitle_metadata safeTitle_def jsCastTitle_def)

text \<open>
  C9, amended.  For every url, the title element of the document is \<open>Video\<close> when the
  title argument of the cast call is absent (\<open>undefined\<close> or \<open>null\<close>); a title that is
  given, the empty string included, is embedded as it is, escaped.  Encoding has no failure
  path.
\<close>

theorem absent_title_defaults_to_Video:
  "dcTitle (generateDIDLMetadata url (safeTitle (jsCastTitle JsUndefined))) = Some ''Video'' \<and>
   dcTitle (generateDIDLMetadata url (safeTitle (jsCastTitle JsNull))) = Some ''Video'' \<and>
   dcTitle (generateDIDLMetadata url (safeTitle (jsCastTitle (JsString t)))) =
     Some (concat (map xmlEntity t))"
  by (simp add: dcTitle_metadata safeTitle_def jsCastTitle_def xmlEntity_def)

section \<open>Facts about the event loop\<close>

lemma initState_fields:
  "clock initState = 0" "pending initState = []" "operationCompleted initState = []"
  "promise initState = []" "emitted initState = []" "executed initState = []"
  "attempts initState = []"
  by (simp_all add: initState_def)

lemma run_done: "pending s = [] \<Longrightarrow> run e s = s"
  by (simp add: run.simps)

lemma run_next: "pending s \<noteq> [] \<Longrightarrow> run e s = run e (step e s)"
  by (simp add: run.simps)

lemma run_reject: "run e (reject code msg initState) = reject code msg initState"
  by (simp add: run_done reject_def initState_def)

lemma failureKind_reject: "failureKind (reject code msg initState) = Some code"
  by (simp add: failureKind_def promiseResult_def reject_def initState_def)

lemma executed_reject: "executed (reject code msg s) = executed s"
  by (simp add: reject_def)

lemma decimal_3: "decimal 3 = ''3''"
  by (simp add: decimal.simps digitChar_def)

text \<open>Unfolding these runs a concrete call step by step.\<close>

lemmas exec =
  cast_def castToDevice_def validateVideoUrl_def castToDeviceWithRetry_def initState_def
  step_def timeoutRunnable_def setURISuccess_def setURIFailure_def playSuccess_def
  playFailure_def retryOrFail_def retryDelay_def reject_def resolve_def postDelayed_def
  execute_def emitCastProgress_def getFlag_def compareAndSet_def removeCallbacks_def
  MAX_RETRIES_def INITIAL_RETRY_DELAY_def CAST_TIMEOUT_MS_def Let_def run_done run_next
  tv_def decimal_3

section \<open>Playback control\<close>

lemma run_control:
  "executed (run e (execute a r ControlCallback initState)) = [a] \<and>
   promise (run e (execute a r ControlCallback initState)) =
     (case r of
        NoReply \<Rightarrow> []
      | Reply l Success \<Rightarrow> [Resolved]
      | Reply l (Failure m) \<Rightarrow> [Rejected ''ACTION_FAILED'' m])"
proof (cases r)
  case NoReply
  then show ?thesis
    by (simp add: execute_def initState_def run_done)
next
  case (Reply l out)
  then show ?thesis
    by (cases out)
      (simp_all add: execute_def postDelayed_def initState_def run_next run_done step_def
        resolve_def reject_def)
qed

lemma failureKind_run_control:
  "failureKind (run e (execute a r ControlCallback initState)) =
     (case r of
        NoReply \<Rightarrow> None
      | Reply l Success \<Rightarrow> None
      | Reply l (Failure m) \<Rightarrow> Some ''ACTION_FAILED'')"
  using run_control [of e a r]
  by (simp add: failureKind_def promiseResult_def split: reply.splits outcome.splits)

text \<open>
  What \<open>toLowerCase\<close> does to a string, measured against the small letters of the three
  actions: a character becomes such a letter exactly when it is that letter in either case.
\<close>

lemma toLowerChar_cases:
  "toLowerChar c = CHR ''p'' \<longleftrightarrow> c = CHR ''p'' \<or> c = CHR ''P''"
  "toLowerChar c = CHR ''l'' \<longleftrightarrow> c = CHR ''l'' \<or> c = CHR ''L''"
  "toLowerChar c = CHR ''a'' \<longleftrightarrow> c = CHR ''a'' \<or> c = CHR ''A''"
  "toLowerChar c = CHR ''y'' \<longleftrightarrow> c = CHR ''y'' \<or> c = CHR ''Y''"
  "toLowerChar c = CHR ''u'' \<longleftrightarrow> c = CHR ''u'' \<or> c = CHR ''U''"
  "toLowerChar c = CHR ''s'' \<longleftrightarrow> c = CHR ''s'' \<or> c = CHR ''S''"
  "toLowerChar c = CHR ''e'' \<longleftrightarrow> c = CHR ''e'' \<or> c = CHR ''E''"
  "toLowerChar c = CHR ''t'' \<longleftrightarrow> c = CHR ''t'' \<or> c = CHR ''T''"
  "toLowerChar c = CHR ''o'' \<longleftrightarrow> c = CHR ''o'' \<or> c = CHR ''O''"
  by (auto simp: toLowerChar_def split: if_splits)

lemma sameLetter_small:
  assumes "(of_char d :: nat) = n + 32" and "(of_char D :: nat) = n" and "65 \<le> n" and "n \<le> 90"
  shows "sameLetter c d \<longleftrightarrow> c = d \<or> c = D"
proof -
  have "\<not> isUpper d"
    using assms(1,3) by (simp add: isUpper_def)
  moreover have "(isUpper c \<and> (of_char d :: nat) = of_char c + 32) \<longleftrightarrow> c = D"
  proof
    assume "isUpper c \<and> (of_char d :: nat) = of_char c + 32"
    then have "(of_char c :: nat) = of_char D"
      using assms(1,2) by simp
    then show "c = D" by simp
  next
    assume "c = D"
    then show "isUpper c \<and> (of_char d :: nat) = of_char c + 32"
      using assms by (simp add: isUpper_def)
  qed
  ultimately show ?thesis
    by (auto simp: sameLetter_def)
qed

lemma sameLetter_cases:
  "sameLetter c (CHR ''p'') \<longleftrightarrow> c = CHR ''p'' \<or> c = CHR ''P''"
  "sameLetter c (CHR ''l'') \<longleftrightarrow> c = CHR ''l'' \<or> c = CHR ''L''"
  "sameLetter c (CHR ''a'') \<longleftrightarrow> c = CHR ''a'' \<or> c = CHR ''A''"
  "sameLetter c (CHR ''y'') \<longleftrightarrow> c = CHR ''y'' \<or> c = CHR ''Y''"
  "sameLetter c (CHR ''u'') \<longleftrightarrow> c = CHR ''u'' \<or> c = CHR ''U''"
  "sameLetter c (CHR ''s'') \<longleftrightarrow> c = CHR ''s'' \<or> c = CHR ''S''"
  "sameLetter c (CHR ''e'') \<longleftrightarrow> c = CHR ''e'' \<or> c = CHR ''E''"
  "sameLetter c (CHR ''t'') \<longleftrightarrow> c = CHR ''t'' \<or> c = CHR ''T''"
  "sameLetter c (CHR ''o'') \<longleftrightarrow> c = CHR ''o'' \<or> c = CHR ''O''"
  by (simp_all add:
      sameLetter_small [of "CHR ''p''" 80 "CHR ''P''"] sameLetter_small [of "CHR ''l''" 76 "CHR ''L''"]
      sameLetter_small [of "CHR ''a''" 65 "CHR ''A''"] sameLetter_small [of "CHR ''y''" 89 "CHR ''Y''"]
      sameLetter_small [of "CHR ''u''" 85 "CHR ''U''"] sameLetter_small [of "CHR ''s''" 83 "CHR ''S''"]
      sameLetter_small [of "CHR ''e''" 69 "CHR ''E''"] sameLetter_small [of "CHR ''t''" 84 "CHR ''T''"]
      sameLetter_small [of "CHR ''o''" 79 "CHR ''O''"])

lemma toLowerChar_small:
  assumes "d \<in> set ''playuseto''"
  shows "(toLowerChar c = d) = sameLetter c d"
  using assms by (auto simp: toLowerChar_cases sameLetter_cases)

lemma toLowerCase_small:
  "set w \<subseteq> set ''playuseto'' \<Longrightarrow> (toLowerCase a = w) = sameIgnoringCase a w"
proof (induction a arbitrary: w)
  case Nil
  then show ?case by (auto simp: toLowerCase_def sameIgnoringCase_def)
next
  case (Cons c a)
  show ?case
  proof (cases w)
    case Nil
    then show ?thesis by (simp add: toLowerCase_def sameIgnoringCase_def)
  next
    case (Cons d w')
    with Cons.prems have d: "d \<in> set ''playuseto''" and w': "set w' \<subseteq> set ''playuseto''"
      by auto
    from Cons.IH [OF w'] show ?thesis
      by (simp add: Cons toLowerCase_def sameIgnoringCase_def toLowerChar_small [OF d])
  qed
qed

text \<open>The comparisons of the Android \<open>switch\<close> find the action a string names when case is ignored.\<close>

lemma actionOf_toLowerCase: "actionOf (toLowerCase act) = actionIgnoringCase act"
  by (simp add: actionOf_def actionIgnoringCase_def toLowerCase_small)

lemma actionOf_ignoring: "actionOf act = Some a \<Longrightarrow> actionIgnoringCase act = Some a"
  unfolding actionOf_toLowerCase [symmetric]
  by (auto simp: actionOf_def toLowerCase_def toLowerChar_def split: if_splits)

text \<open>The Android call as a whole: its checks in their order, then the action.\<close>

lemma control_unfold:
  "control e deviceId action =
     (if \<not> upnpService e then
        reject ''SERVICE_NOT_STARTED''
          (''DLNA service not started. Call startService('' @ [CHR 0x27] @ ''Your App Name'' @
           [CHR 0x27] @ '') before controlling playback.'')
          initState
      else
        (case getDevice e 0 deviceId of
           Threw m \<Rightarrow>
             reject ''CONTROL_ERROR''
               (''Failed to control playback: '' @ m @ ''. '' @
                ''Device may be offline or unreachable.'')
               initState
         | NotFound \<Rightarrow>
             reject ''DEVICE_NOT_FOUND''
               (''Device with ID '' @ [CHR 0x27] @ deviceId @ [CHR 0x27] @ '' not found. '' @
                ''Device may have gone offline. Try discovering devices again.'')
               initState
         | Found dev \<Rightarrow>
             if \<not> hasAVTransport dev then
               reject ''SERVICE_NOT_AVAILABLE''
                 (''Device '' @ [CHR 0x27] @ friendlyName dev @ [CHR 0x27] @
                  '' does not support AVTransport service. '' @
                  ''Cannot control playback on this device.'')
                 initState
             else
               (case action of
                  None \<Rightarrow>
                    reject ''CONTROL_ERROR''
                      (''Failed to control playback: '' @ nullPointerMessage e @ ''. '' @
                       ''Device may be offline or unreachable.'')
                      initState
                | Some act \<Rightarrow>
                    (case actionOf (toLowerCase act) of
                       Some a \<Rightarrow> run e (execute a (controlReply e a) ControlCallback initState)
                     | None \<Rightarrow>
                         reject ''INVALID_ACTION''
                           (''Invalid action: '' @ [CHR 0x27] @ act @ [CHR 0x27] @ ''. '' @
                            ''Valid actions are: '' @ [CHR 0x27] @ ''play'' @ [CHR 0x27] @ '', '' @
                            [CHR 0x27] @ ''pause'' @ [CHR 0x27] @ '', '' @
                            [CHR 0x27] @ ''stop'' @ [CHR 0x27] @ ''.'')
                           initState))))"
  by (simp add: control_def controlPlayback_def actionOf_def run_reject initState_fields
      split: lookup.splits option.splits)

lemma control_kind:
  "failureKind (control e deviceId action) =
     (if \<not> upnpService e then Some ''SERVICE_NOT_STARTED''
      else
        (case getDevice e 0 deviceId of
           Threw m \<Rightarrow> Some ''CONTROL_ERROR''
         | NotFound \<Rightarrow> Some ''DEVICE_NOT_FOUND''
         | Found dev \<Rightarrow>
             if \<not> hasAVTransport dev then Some ''SERVICE_NOT_AVAILABLE''
             else
               (case action of
                  None \<Rightarrow> Some ''CONTROL_ERROR''
                | Some act \<Rightarrow>
                    (case actionIgnoringCase act of
                       None \<Rightarrow> Some ''INVALID_ACTION''
                     | Some a \<Rightarrow>
                         (case controlReply e a of
                            NoReply \<Rightarrow> None
                          | Reply l Success \<Rightarrow> None
                          | Reply l (Failure m) \<Rightarrow> Some ''ACTION_FAILED'')))))"
  by (simp add: control_unfold failureKind_reject failureKind_run_control actionOf_toLowerCase
      split: lookup.splits option.splits)

lemma control_executed:
  "executed (control e deviceId action) =
     (if \<not> upnpService e then []
      else
        (case getDevice e 0 deviceId of
           Threw m \<Rightarrow> []
         | NotFound \<Rightarrow> []
         | Found dev \<Rightarrow>
             if \<not> hasAVTransport dev then []
             else
               (case action of
                  None \<Rightarrow> []
                | Some act \<Rightarrow>
                    (case actionIgnoringCase act of None \<Rightarrow> [] | Some a \<Rightarrow> [a]))))"
  by (simp add: control_unfold run_control executed_reject initState_fields actionOf_toLowerCase
      split: lookup.splits option.splits)

lemma controlPlayback_pending:
  "actionIgnoringCase act = None \<Longrightarrow> pending (controlPlayback e deviceId (Some act) initState) = []"
  "pending (controlPlayback e deviceId None initState) = []"
  unfolding actionOf_toLowerCase [symmetric]
  by (simp_all add: controlPlayback_def actionOf_def reject_def initState_fields
      split: lookup.splits if_splits)

text \<open>The iOS call as a whole.\<close>

lemma iosControl_kind:
  "failureKind (iosControlPlayback e deviceId action initState) =
     (if \<not> mediaController e then Some ''CONTROLLER_NOT_INITIALIZED''
      else
        (case discoveredDevices e deviceId of
           None \<Rightarrow> Some ''DEVICE_NOT_FOUND''
         | Some dev \<Rightarrow>
             (case action of
                None \<Rightarrow> Some ''INVALID_ACTION''
              | Some act \<Rightarrow>
                  (case actionOf act of
                     None \<Rightarrow> Some ''INVALID_ACTION''
                   | Some a \<Rightarrow> if nptSucceeded e a then None else Some ''ACTION_FAILED''))))"
  by (simp add: iosControlPlayback_def actionOf_def iosInvoke_def Let_def failureKind_def
      promiseResult_def reject_def resolve_def initState_fields split: option.splits)

lemma iosControl_executed:
  "executed (iosControlPlayback e deviceId action initState) =
     (if \<not> mediaController e then []
      else
        (case discoveredDevices e deviceId of
           None \<Rightarrow> []
         | Some dev \<Rightarrow>
             (case action of
                None \<Rightarrow> []
              | Some act \<Rightarrow> (case actionOf act of None \<Rightarrow> [] | Some a \<Rightarrow> [a]))))"
  by (simp add: iosControlPlayback_def actionOf_def iosInvoke_def Let_def reject_def resolve_def
      initState_fields split: option.splits)

lemma iosControl_pending: "pending (iosControlPlayback e deviceId action initState) = []"
  by (simp add: iosControlPlayback_def iosInvoke_def Let_def reject_def resolve_def
      initState_fields split: option.splits)




text \<open>
  C5, as stated: a control call with an action outside the three fails with
  \<open>INVALID_ACTION\<close> whether or not the device identifier resolves.  It does not: the
  device is looked up before the action is examined, and for an identifier the registry does
  not know the call fails with \<open>DEVICE_NOT_FOUND\<close>.
\<close>

theorem invalid_action_unknown_device:
  "failureKind (control absentEnv ''uuid:gone'' (Some ''rewind'')) = Some ''DEVICE_NOT_FOUND'' \<and>
   failureKind (control absentEnv ''uuid:gone'' (Some ''rewind'')) \<noteq> Some ''INVALID_ACTION''"
  by (simp add: control_kind absentEnv_def)

text \<open>
  C5, amended.  For every control call whose action string is outside \<open>play\<close>,
  \<open>pause\<close>, \<open>stop\<close>, on Android when case is ignored and on iOS as the string is given,
  no action is executed and the call is rejected before it returns, with nothing left
  pending.  The kind is that of the first check that fails, and the action is the last one
  checked: \<open>INVALID_ACTION\<close> when the service is started and the device resolves (on
  Android: with the AVTransport service), \<open>DEVICE_NOT_FOUND\<close> when the service is
  started and the device does not resolve.  An action that is \<open>null\<close> executes nothing
  either; where a string would be rejected with \<open>INVALID_ACTION\<close>, Android rejects it with
  \<open>CONTROL_ERROR\<close> and iOS with \<open>INVALID_ACTION\<close>.
\<close>

theorem invalid_action_rejected:
  "(actionIgnoringCase act = None \<longrightarrow>
      executed (control e deviceId (Some act)) = [] \<and>
      pending (controlPlayback e deviceId (Some act) initState) = [] \<and>
      failureKind (control e deviceId (Some act)) =
        (if \<not> upnpService e then Some ''SERVICE_NOT_STARTED''
         else
           (case getDevice e 0 deviceId of
              Threw m \<Rightarrow> Some ''CONTROL_ERROR''
            | NotFound \<Rightarrow> Some ''DEVICE_NOT_FOUND''
            | Found dev \<Rightarrow>
                if \<not> hasAVTransport dev then Some ''SERVICE_NOT_AVAILABLE''
                else Some ''INVALID_ACTION''))) \<and>
   (actionOf act = None \<longrightarrow>
      executed (iosControlPlayback ie deviceId (Some act) initState) = [] \<and>
      pending (iosControlPlayback ie deviceId (Some act) initState) = [] \<and>
      failureKind (iosControlPlayback ie deviceId (Some act) initState) =
        (if \<not> mediaController ie then Some ''CONTROLLER_NOT_INITIALIZED''
         else
           (case discoveredDevices ie deviceId of
              None \<Rightarrow> Some ''DEVICE_NOT_FOUND''
            | Some dev \<Rightarrow> Some ''INVALID_ACTION''))) \<and>
   executed (control e deviceId None) = [] \<and>
   pending (controlPlayback e deviceId None initState) = [] \<and>
   failureKind (control e deviceId None) =
     (if \<not> upnpService e then Some ''SERVICE_NOT_STARTED''
      else
        (case getDevice e 0 deviceId of
           Threw m \<Rightarrow> Some ''CONTROL_ERROR''
         | NotFound \<Rightarrow> Some ''DEVICE_NOT_FOUND''
         | Found dev \<Rightarrow>
             if \<not> hasAVTransport dev then Some ''SERVICE_NOT_AVAILABLE''
             else Some ''CONTROL_ERROR'')) \<and>
   executed (iosControlPlayback ie deviceId None initState) = [] \<and>
   failureKind (iosControlPlayback ie deviceId None initState) =
     (if \<not> mediaController ie then Some ''CONTROLLER_NOT_INITIALIZED''
      else
        (case discoveredDevices ie deviceId of
           None \<Rightarrow> Some ''DEVICE_NOT_FOUND''
         | Some dev \<Rightarrow> Some ''INVALID_ACTION''))"
proof -
  have android: "actionIgnoringCase act = None \<longrightarrow>
      executed (control e deviceId (Some act)) = [] \<and>
      pending (controlPlayback e deviceId (Some act) initState) = [] \<and>
      failureKind (control e deviceId (Some act)) =
        (if \<not> upnpService e then Some ''SERVICE_NOT_STARTED''
         else
           (case getDevice e 0 deviceId of
              Threw m \<Rightarrow> Some ''CONTROL_ERROR''
            | NotFound \<Rightarrow> Some ''DEVICE_NOT_FOUND''
            | Found dev \<Rightarrow>
                if \<not> hasAVTransport dev then Some ''SERVICE_NOT_AVAILABLE''
                else Some ''INVALID_ACTION''))"
    by (simp add: control_kind control_executed controlPlayback_pending split: lookup.splits)
  have ios: "actionOf act = None \<longrightarrow>
      executed (iosControlPlayback ie deviceId (Some act) initState) = [] \<and>
      pending (iosControlPlayback ie deviceId (Some act) initState) = [] \<and>
      failureKind (iosControlPlayback ie deviceId (Some act) initState) =
        (if \<not> mediaController ie then Some ''CONTROLLER_NOT_INITIALIZED''
         else
           (case discoveredDevices ie deviceId of
              None \<Rightarrow> Some ''DEVICE_NOT_FOUND''
            | Some dev \<Rightarrow> Some ''INVALID_ACTION''))"
    by (simp add: iosControl_kind iosControl_executed iosControl_pending split: option.splits)
  have null:
    "executed (control e deviceId None) = []"
    "pending (controlPlayback e deviceId None initState) = []"
    "failureKind (control e deviceId None) =
       (if \<not> upnpService e then Some ''SERVICE_NOT_STARTED''
        else
          (case getDevice e 0 deviceId of
             Threw m \<Rightarrow> Some ''CONTROL_ERROR''
           | NotFound \<Rightarrow> Some ''DEVICE_NOT_FOUND''
           | Found dev \<Rightarrow>
               if \<not> hasAVTransport dev then Some ''SERVICE_NOT_AVAILABLE''
               else Some ''CONTROL_ERROR''))"
    "executed (iosControlPlayback ie deviceId None initState) = []"
    "failureKind (iosControlPlayback ie deviceId None initState) =
       (if \<not> mediaController ie then Some ''CONTROLLER_NOT_INITIALIZED''
        else
          (case discoveredDevices ie deviceId of
             None \<Rightarrow> Some ''DEVICE_NOT_FOUND''
           | Some dev \<Rightarrow> Some ''INVALID_ACTION''))"
    by (simp_all add: control_kind control_executed controlPlayback_pending iosControl_kind
        iosControl_executed split: lookup.splits option.splits)
  from android ios null show ?thesis
    by (intro conjI)
qed

theorem invalid_action_rejected_witness:
  "actionIgnoringCase ''rewind'' = None \<and>
   executed (control idleEnv ''uuid:tv'' (Some ''rewind'')) = [] \<and>
   failureKind (control idleEnv ''uuid:tv'' (Some ''rewind'')) = Some ''INVALID_ACTION'' \<and>
   failureKind (control absentEnv ''uuid:tv'' (Some ''rewind'')) = Some ''DEVICE_NOT_FOUND'' \<and>
   failureKind (iosControlPlayback iosTvEnv ''uuid:tv'' (Some ''rewind'') initState) =
     Some ''INVALID_ACTION'' \<and>
   actionOf ''PLAY'' = None \<and>
   executed (iosControlPlayback iosTvEnv ''uuid:tv'' (Some ''PLAY'') initState) = [] \<and>
   failureKind (iosControlPlayback iosTvEnv ''uuid:tv'' (Some ''PLAY'') initState) =
     Some ''INVALID_ACTION'' \<and>
   failureKind (control idleEnv ''uuid:tv'' None) = Some ''CONTROL_ERROR'' \<and>
   failureKind (iosControlPlayback iosTvEnv ''uuid:tv'' None initState) = Some ''INVALID_ACTION''"
proof -
  have l: "actionIgnoringCase ''rewind'' = None"
    by (simp add: actionIgnoringCase_def sameIgnoringCase_def)
  have r: "actionOf ''rewind'' = None" "actionOf ''PLAY'' = None"
    by (simp_all add: actionOf_def)
  from invalid_action_rejected [of "''rewind''" idleEnv "''uuid:tv''" iosTvEnv]
    invalid_action_rejected [of "''rewind''" absentEnv "''uuid:tv''" iosTvEnv]
    invalid_action_rejected [of "''PLAY''" idleEnv "''uuid:tv''" iosTvEnv]
  show ?thesis
    by (simp add: l r idleEnv_def absentEnv_def iosTvEnv_def tv_def)
qed

section \<open>The retry budget: facts\<close>

lemma inBudget_retryOrFail: "inBudget s \<Longrightarrow> inBudget (retryOrFail d u t n m s)"
  by (simp add: inBudget_def retryOrFail_def reject_def postDelayed_def MAX_RETRIES_def)

lemma inBudget_removeCallbacks: "inBudget s \<Longrightarrow> inBudget (removeCallbacks i s)"
  by (simp add: inBudget_def removeCallbacks_def list_all_iff)

lemma inBudget_compareAndSet: "inBudget s \<Longrightarrow> inBudget (snd (compareAndSet i s))"
  by (simp add: inBudget_def compareAndSet_def)

lemma inBudget_emit: "inBudget s \<Longrightarrow> inBudget (emitCastProgress a b c s)"
  by (simp add: inBudget_def emitCastProgress_def)

lemma inBudget_execute:
  "inBudget s \<Longrightarrow> (\<And>r. withinBudget (cb r)) \<Longrightarrow> inBudget (execute a rp cb s)"
  by (simp add: inBudget_def execute_def postDelayed_def Let_def split: reply.splits)

lemma inBudget_castToDeviceWithRetry:
  assumes "inBudget s" and "n \<le> MAX_RETRIES"
  shows "inBudget (castToDeviceWithRetry e d u t n s)"
proof -
  let ?s = "s\<lparr>attempts := attempts s @ [(clock s, n)]\<rparr>"
  have s: "inBudget ?s" using assms(1) by (simp add: inBudget_def)
  have rej: "inBudget (reject c m ?s)" if "c \<noteq> ''MAX_RETRIES_EXCEEDED''" for c m
    using s that by (simp add: inBudget_def reject_def)
  have rej': "inBudget (reject c m (emitCastProgress a b x ?s))" if "c \<noteq> ''MAX_RETRIES_EXCEEDED''" for c m a b x
    using s that by (simp add: inBudget_def reject_def emitCastProgress_def)
  have ex: "inBudget (execute a rp (SetURICallback i d u t n nm)
      (postDelayed (TimeoutRunnable i d u t n) CAST_TIMEOUT_MS
        ((emitCastProgress x y nm ?s)\<lparr>operationCompleted := fl\<rparr>)))" for a rp i nm x y fl
    by (rule inBudget_execute) (use s in \<open>simp_all add: inBudget_def postDelayed_def emitCastProgress_def\<close>)
  show ?thesis
    using assms(2)
    by (simp add: castToDeviceWithRetry_def Let_def rej rej' ex inBudget_retryOrFail [OF s]
        split: lookup.splits)
qed

lemma inBudget_runTask:
  assumes "inBudget s" and "withinBudget k"
  shows "inBudget (runTask e k s)"
proof (cases k)
  case (TimeoutRunnable i d u t n)
  then show ?thesis using assms by (simp add: timeoutRunnable_def inBudget_retryOrFail)
next
  case (RetryRunnable d u t n)
  then show ?thesis using assms by (simp add: inBudget_castToDeviceWithRetry)
next
  case (SetURICallback i d u t n nm r)
  then show ?thesis
    using assms
    by (cases r)
      (simp_all add: setURISuccess_def setURIFailure_def Let_def split_beta inBudget_execute
        inBudget_emit inBudget_retryOrFail inBudget_removeCallbacks inBudget_compareAndSet)
next
  case (PlayCallback i d u t n nm r)
  then show ?thesis
    using assms inBudget_emit [OF inBudget_removeCallbacks [OF inBudget_compareAndSet [OF assms(1)]]]
    by (cases r)
      (simp_all add: playSuccess_def playFailure_def Let_def split_beta
        inBudget_retryOrFail inBudget_removeCallbacks inBudget_compareAndSet,
       simp add: inBudget_def resolve_def)
next
  case (ControlCallback r)
  then show ?thesis using assms by (cases r) (simp_all add: inBudget_def resolve_def reject_def)
qed

lemma inBudget_step: "inBudget s \<Longrightarrow> inBudget (step e s)"
proof (cases "nextTask (pending s)")
  case None
  then show "inBudget s \<Longrightarrow> inBudget (step e s)" by (simp add: step_def)
next
  case (Some x)
  assume i: "inBudget s"
  from Some have m: "x \<in> set (pending s)" by (rule nextTask_mem)
  with i have w: "withinBudget (snd x)" by (simp add: inBudget_def list_all_iff)
  have "inBudget (s\<lparr>clock := fst x, pending := remove1 x (pending s)\<rparr>)"
    using i by (auto simp: inBudget_def list_all_iff dest: notin_set_remove1)
  then show "inBudget (step e s)"
    using Some w by (simp add: step_def inBudget_runTask)
qed

lemma inBudget_run: "inBudget s \<Longrightarrow> inBudget (run e s)"
proof (induction e s rule: run.induct)
  case (1 e s)
  show ?case
  proof (cases "pending s = []")
    case True
    then show ?thesis using "1.prems" by (simp add: run_done)
  next
    case False
    then show ?thesis
      using "1.IH" [OF False] "1.prems" by (simp add: run_next inBudget_step)
  qed
qed

lemma inBudget_castToDevice: "inBudget (castToDevice e d url t initState)"
proof -
  have i: "inBudget initState" by (simp add: inBudget_def initState_fields)
  have r: "inBudget (reject ''INVALID_URL'' m initState)" for m
    by (simp add: inBudget_def reject_def initState_fields)
  show ?thesis
    by (simp add: castToDevice_def validateVideoUrl_def r
        inBudget_castToDeviceWithRetry [OF i] MAX_RETRIES_def split: option.splits)
qed

text \<open>
  No cast call delivers \<open>MAX_RETRIES_EXCEEDED\<close>: \<open>retryOrFail\<close> stops at attempt
  \<open>MAX_RETRIES\<close>, so the first check of \<open>castToDeviceWithRetry\<close> never fires.
\<close>

lemma max_retries_exceeded_never_delivered:
  "failureKind (cast e deviceId url title) \<noteq> Some ''MAX_RETRIES_EXCEEDED''"
proof -
  have "inBudget (cast e deviceId url title)"
    unfolding cast_def by (rule inBudget_run [OF inBudget_castToDevice])
  then have "list_all notExceeded (promise (cast e deviceId url title))"
    by (simp add: inBudget_def)
  then show ?thesis
    by (cases "promise (cast e deviceId url title)")
      (auto simp: failureKind_def promiseResult_def split: settlement.splits)
qed

section \<open>The cast call\<close>

lemma validateVideoUrl_rejects:
  assumes "\<not> acceptedUrl url"
  shows "\<exists>msg. validateVideoUrl url s = Inl (reject ''INVALID_URL'' msg s)"
  using assms
  by (auto simp: validateVideoUrl_def acceptedUrl_def startsWith_prefix split: option.splits)

lemma validateVideoUrl_accepts:
  assumes "acceptedUrl (Some u)"
  shows "validateVideoUrl (Some u) s = Inr (u, s)"
  using assms
  by (auto simp: validateVideoUrl_def acceptedUrl_def startsWith_prefix)

text \<open>
  C4.  For every cast call whose url is absent, empty or begins with neither \<open>http://\<close>
  nor \<open>https://\<close>, the call is rejected with \<open>INVALID_URL\<close> (the kind the specification
  calls InvalidInput) before \<open>castToDevice\<close> returns; no action is executed, no attempt
  is started and nothing is left pending, so nothing is retried.
\<close>

theorem invalid_url_fails_fast:
  assumes "\<not> acceptedUrl url"
  shows
    "failureKind (cast e deviceId url title) = Some ''INVALID_URL'' \<and>
     executed (cast e deviceId url title) = [] \<and>
     attempts (cast e deviceId url title) = [] \<and>
     emitted (cast e deviceId url title) = [] \<and>
     cast e deviceId url title = castToDevice e deviceId url title initState \<and>
     pending (castToDevice e deviceId url title initState) = [] \<and>
     (\<exists>msg. promise (castToDevice e deviceId url title initState) = [Rejected ''INVALID_URL'' msg])"
proof -
  from validateVideoUrl_rejects [OF assms, of initState]
  obtain msg where "validateVideoUrl url initState = Inl (reject ''INVALID_URL'' msg initState)"
    by blast
  then have c: "castToDevice e deviceId url title initState = reject ''INVALID_URL'' msg initState"
    by (simp add: castToDevice_def)
  show ?thesis
    by (simp add: cast_def c run_reject failureKind_reject executed_reject initState_fields)
      (simp add: reject_def initState_fields)
qed

theorem invalid_url_fails_fast_witness:
  "\<not> acceptedUrl (Some ''ftp://tv/a.mp4'') \<and>
   failureKind (cast idleEnv ''uuid:tv'' (Some ''ftp://tv/a.mp4'') None) = Some ''INVALID_URL'' \<and>
   executed (cast idleEnv ''uuid:tv'' (Some ''ftp://tv/a.mp4'') None) = [] \<and>
   attempts (cast idleEnv ''uuid:tv'' (Some ''ftp://tv/a.mp4'') None) = []"
proof -
  have h: "\<not> acceptedUrl (Some ''ftp://tv/a.mp4'')"
    by (simp add: acceptedUrl_def)
  from invalid_url_fails_fast [OF h, of idleEnv "''uuid:tv''" None] h show ?thesis
    by blast
qed

lemma castToDeviceWithRetry_miss:
  assumes "attemptNumber \<le> MAX_RETRIES" and "upnpService e"
    and "getDevice e (clock s) deviceId = NotFound"
  shows "castToDeviceWithRetry e deviceId videoUrl title attemptNumber s =
     reject ''DEVICE_NOT_FOUND''
       (''Device with ID '' @ [CHR 0x27] @ deviceId @ [CHR 0x27] @ '' not found. '' @
        ''Device may have gone offline or discovery needs to be re-run. '' @
        ''Try calling discoverDevices() again.'')
       (s\<lparr>attempts := attempts s @ [(clock s, attemptNumber)]\<rparr>)"
  using assms by (simp add: castToDeviceWithRetry_def Let_def)

text \<open>
  C2, as stated: a cast call whose device identifier does not resolve makes three attempts
  and ends with \<open>MAX_RETRIES_EXCEEDED\<close>.  It does not: the first miss rejects the call
  with \<open>DEVICE_NOT_FOUND\<close>, and one attempt is all there is.
\<close>

theorem unknown_device_not_retried:
  "failureKind (cast absentEnv ''uuid:gone'' (Some ''http://tv/a.mp4'') None) =
     Some ''DEVICE_NOT_FOUND'' \<and>
   failureKind (cast absentEnv ''uuid:gone'' (Some ''http://tv/a.mp4'') None) \<noteq>
     Some ''MAX_RETRIES_EXCEEDED'' \<and>
   attempts (cast absentEnv ''uuid:gone'' (Some ''http://tv/a.mp4'') None) = [(0, 1)] \<and>
   length (attempts (cast absentEnv ''uuid:gone'' (Some ''http://tv/a.mp4'') None)) \<noteq> 3"
  by (simp add: cast_def castToDevice_def validateVideoUrl_def castToDeviceWithRetry_def Let_def
      absentEnv_def MAX_RETRIES_def reject_def initState_def run_done failureKind_def
      promiseResult_def)

text \<open>
  C2, amended.  For every cast call with an accepted url and a started service whose device
  identifier does not resolve when the call is made, the call is rejected at once with
  \<open>DEVICE_NOT_FOUND\<close>: one attempt, no delay, no retry, no progress event and no action
  executed.  The same holds for a miss at any later attempt: it rejects the call and
  schedules nothing.
\<close>

theorem unknown_device_rejected_at_once:
  assumes "acceptedUrl (Some u)" and "upnpService e" and "getDevice e 0 deviceId = NotFound"
  shows
    "failureKind (cast e deviceId (Some u) title) = Some ''DEVICE_NOT_FOUND'' \<and>
     attempts (cast e deviceId (Some u) title) = [(0, 1)] \<and>
     executed (cast e deviceId (Some u) title) = [] \<and>
     emitted (cast e deviceId (Some u) title) = [] \<and>
     cast e deviceId (Some u) title = castToDevice e deviceId (Some u) title initState \<and>
     pending (castToDevice e deviceId (Some u) title initState) = [] \<and>
     (attemptNumber \<le> MAX_RETRIES \<and> getDevice e (clock s) deviceId = NotFound \<longrightarrow>
        pending (castToDeviceWithRetry e deviceId u title attemptNumber s) = pending s \<and>
        promise (castToDeviceWithRetry e deviceId u title attemptNumber s) =
          promise s @
          [Rejected ''DEVICE_NOT_FOUND''
             (''Device with ID '' @ [CHR 0x27] @ deviceId @ [CHR 0x27] @ '' not found. '' @
              ''Device may have gone offline or discovery needs to be re-run. '' @
              ''Try calling discoverDevices() again.'')])"
proof -
  have later: "attemptNumber \<le> MAX_RETRIES \<and> getDevice e (clock s) deviceId = NotFound \<longrightarrow>
        pending (castToDeviceWithRetry e deviceId u title attemptNumber s) = pending s \<and>
        promise (castToDeviceWithRetry e deviceId u title attemptNumber s) =
          promise s @
          [Rejected ''DEVICE_NOT_FOUND''
             (''Device with ID '' @ [CHR 0x27] @ deviceId @ [CHR 0x27] @ '' not found. '' @
              ''Device may have gone offline or discovery needs to be re-run. '' @
              ''Try calling discoverDevices() again.'')]"
    using assms(2) by (simp add: castToDeviceWithRetry_miss reject_def)
  have "castToDevice e deviceId (Some u) title initState =
      castToDeviceWithRetry e deviceId u title 1 initState"
    by (simp add: castToDevice_def validateVideoUrl_accepts [OF assms(1)])
  also have "\<dots> = reject ''DEVICE_NOT_FOUND''
       (''Device with ID '' @ [CHR 0x27] @ deviceId @ [CHR 0x27] @ '' not found. '' @
        ''Device may have gone offline or discovery needs to be re-run. '' @
        ''Try calling discoverDevices() again.'')
       (initState\<lparr>attempts := [(0, 1)]\<rparr>)"
    using castToDeviceWithRetry_miss [of 1 e initState deviceId u title] assms(2,3)
    by (simp add: MAX_RETRIES_def initState_fields)
  finally have c: "castToDevice e deviceId (Some u) title initState =
      reject ''DEVICE_NOT_FOUND''
       (''Device with ID '' @ [CHR 0x27] @ deviceId @ [CHR 0x27] @ '' not found. '' @
        ''Device may have gone offline or discovery needs to be re-run. '' @
        ''Try calling discoverDevices() again.'')
       (initState\<lparr>attempts := [(0, 1)]\<rparr>)" .
  have p: "pending (castToDevice e deviceId (Some u) title initState) = []"
    by (simp add: c reject_def initState_fields)
  have first:
    "failureKind (cast e deviceId (Some u) title) = Some ''DEVICE_NOT_FOUND'' \<and>
     attempts (cast e deviceId (Some u) title) = [(0, 1)] \<and>
     executed (cast e deviceId (Some u) title) = [] \<and>
     emitted (cast e deviceId (Some u) title) = [] \<and>
     cast e deviceId (Some u) title = castToDevice e deviceId (Some u) title initState"
    by (simp add: cast_def run_done [OF p])
      (simp add: c reject_def failureKind_def promiseResult_def initState_fields)
  from first p later show ?thesis
    by (intro conjI) (elim conjE, assumption)+
qed

theorem unknown_device_rejected_at_once_witness:
  "acceptedUrl (Some ''http://tv/a.mp4'') \<and>
   failureKind (cast absentEnv ''uuid:gone'' (Some ''http://tv/a.mp4'') None) =
     Some ''DEVICE_NOT_FOUND'' \<and>
   attempts (cast absentEnv ''uuid:gone'' (Some ''http://tv/a.mp4'') None) = [(0, 1)]"
proof -
  have h: "acceptedUrl (Some ''http://tv/a.mp4'')" "upnpService absentEnv"
    "getDevice absentEnv 0 ''uuid:gone'' = NotFound"
    by (simp_all add: acceptedUrl_def absentEnv_def)
  from unknown_device_rejected_at_once [OF h, of None] h(1) show ?thesis
    by blast
qed

section \<open>The deadline and the callbacks\<close>

text \<open>
  The deadline handler reads the completion flag and leaves it as it is: when it has fired,
  the flag still says that nothing has completed the attempt.
\<close>

lemma deadline_leaves_flag:
  "operationCompleted (timeoutRunnable i d u t n s) = operationCompleted s"
  by (simp add: timeoutRunnable_def retryOrFail_def reject_def postDelayed_def)

text \<open>
  Hence, below the last attempt, a failure callback that arrives after the deadline handler
  has fired schedules a second retry next to the one the handler scheduled.
\<close>

lemma deadline_then_late_failure:
  assumes "\<not> getFlag i s" and "i < length (operationCompleted s)" and "n < MAX_RETRIES"
  shows "pending (setURIFailure i d u t n m (timeoutRunnable i d u t n s)) =
     filter (\<lambda>x. \<not> isTimeoutOf i (snd x)) (pending s) @
     [(clock s + retryDelay n, RetryRunnable d u t (n + 1)),
      (clock s + retryDelay n, RetryRunnable d u t (n + 1))]"
  using assms
  by (simp add: timeoutRunnable_def setURIFailure_def retryOrFail_def postDelayed_def
      compareAndSet_def getFlag_def removeCallbacks_def)

text \<open>
  With answers that arrive before the deadline, a call whose \<open>SetAVTransportURI\<close> is refused
  on attempts 1 and 2 and accepted on attempt 3, and whose \<open>Play\<close> is accepted, emits
  three \<open>connecting\<close> events, one \<open>buffering\<close> and one \<open>playing\<close> event, resolves
  once, and makes its attempts 1 s and 2 s after the refusals.
\<close>

lemma third_attempt_succeeds_in_time:
  assumes "acceptedUrl (Some u)" and "upnpService e"
    and "\<And>t. getDevice e t deviceId = Found dev" and "hasAVTransport dev"
    and "setUriReply e 1 = Reply l1 (Failure m1)" and "l1 < CAST_TIMEOUT_MS"
    and "setUriReply e 2 = Reply l2 (Failure m2)" and "l2 < CAST_TIMEOUT_MS"
    and "setUriReply e 3 = Reply l3 Success" and "playReply e 3 = Reply l4 Success"
    and "l3 + l4 < CAST_TIMEOUT_MS"
  shows
  "map stage (emitted (cast e deviceId (Some u) title)) =
     [''connecting'', ''connecting'', ''connecting'', ''buffering'', ''playing''] \<and>
   promise (cast e deviceId (Some u) title) = [Resolved] \<and>
   attempts (cast e deviceId (Some u) title) =
     [(0, 1), (l1 + 1000, 2), (l1 + l2 + 3000, 3)]"
proof -
  have v: "validateVideoUrl (Some u) initState = Inr (u, initState)"
    by (rule validateVideoUrl_accepts [OF assms(1)])
  have n: "setUriReply e (Suc 0) = Reply l1 (Failure m1)"
    "setUriReply e (Suc (Suc 0)) = Reply l2 (Failure m2)"
    "setUriReply e (Suc (Suc (Suc 0))) = Reply l3 Success"
    "playReply e (Suc (Suc (Suc 0))) = Reply l4 Success"
    using assms(5,7,9,10) by (simp_all add: numeral_2_eq_2 numeral_3_eq_3)
  show ?thesis
    unfolding cast_def castToDevice_def v
    using assms(2-4,6,8,11)
    by (simp add: n castToDeviceWithRetry_def initState_def
      step_def timeoutRunnable_def setURISuccess_def setURIFailure_def playSuccess_def
      playFailure_def retryOrFail_def retryDelay_def reject_def resolve_def postDelayed_def
      execute_def emitCastProgress_def getFlag_def compareAndSet_def removeCallbacks_def
      MAX_RETRIES_def INITIAL_RETRY_DELAY_def CAST_TIMEOUT_MS_def Let_def run_done run_next)
qed

lemma third_attempt_succeeds_at_100ms:
  "map stage (emitted (cast (thirdTimeEnv 100) ''uuid:tv'' (Some ''http://tv/a.mp4'') None)) =
     [''connecting'', ''connecting'', ''connecting'', ''buffering'', ''playing''] \<and>
   promise (cast (thirdTimeEnv 100) ''uuid:tv'' (Some ''http://tv/a.mp4'') None) = [Resolved] \<and>
   attempts (cast (thirdTimeEnv 100) ''uuid:tv'' (Some ''http://tv/a.mp4'') None) =
     [(0, 1), (1100, 2), (3200, 3)]"
  using third_attempt_succeeds_in_time [of "''http://tv/a.mp4''" "thirdTimeEnv 100" "''uuid:tv''"
      tv 100 "''busy''" 100 "''busy''" 100 100 None]
  by (simp add: acceptedUrl_def thirdTimeEnv_def tv_def CAST_TIMEOUT_MS_def)

text \<open>
  When the refusal of attempt 1 arrives later than 33.3 s, after the retries started by the
  deadline handler have played the media, the refusal starts attempts 2 and 3 a second time.
\<close>

lemma late_refusal_runs_attempts_twice:
  assumes "33300 < l"
  shows
  "map stage (emitted (cast (thirdTimeEnv l) deviceId (Some ''http://tv/a.mp4'') title)) =
     [''connecting'', ''connecting'', ''connecting'', ''buffering'', ''playing'',
      ''connecting'', ''connecting'', ''buffering'', ''playing''] \<and>
   promise (cast (thirdTimeEnv l) deviceId (Some ''http://tv/a.mp4'') title) =
     [Resolved, Resolved] \<and>
   attempts (cast (thirdTimeEnv l) deviceId (Some ''http://tv/a.mp4'') title) =
     [(0, 1), (31000, 2), (33100, 3), (l + 1000, 2), (l + 3100, 3)]"
  using assms by (simp add: exec thirdTimeEnv_def)

text \<open>
  When the renderer refuses \<open>SetAVTransportURI\<close> before the deadline on each of the three
  attempts, the attempts follow the refusals after 1 s and 2 s, and the call is rejected with
  \<open>CAST_FAILED\<close> and a message made of the last refusal and the number of attempts.
\<close>

lemma refused_every_time:
  assumes "acceptedUrl (Some u)" and "upnpService e"
    and "\<And>t. getDevice e t deviceId = Found dev" and "hasAVTransport dev"
    and "setUriReply e 1 = Reply l1 (Failure m1)" and "l1 < CAST_TIMEOUT_MS"
    and "setUriReply e 2 = Reply l2 (Failure m2)" and "l2 < CAST_TIMEOUT_MS"
    and "setUriReply e 3 = Reply l3 (Failure m3)" and "l3 < CAST_TIMEOUT_MS"
  shows
  "promise (cast e deviceId (Some u) title) =
     [Rejected ''CAST_FAILED''
        (''Failed to load media: '' @ m3 @ ''. '' @
         ''Check that the URL is accessible from the TV'' @ [CHR 0x27] @ ''s network.'' @
         '' after 3 attempts'')] \<and>
   attempts (cast e deviceId (Some u) title) =
     [(0, 1), (l1 + 1000, 2), (l1 + l2 + 3000, 3)] \<and>
   map stage (emitted (cast e deviceId (Some u) title)) =
     [''connecting'', ''connecting'', ''connecting'']"
proof -
  have v: "validateVideoUrl (Some u) initState = Inr (u, initState)"
    by (rule validateVideoUrl_accepts [OF assms(1)])
  have n: "setUriReply e (Suc 0) = Reply l1 (Failure m1)"
    "setUriReply e (Suc (Suc 0)) = Reply l2 (Failure m2)"
    "setUriReply e (Suc (Suc (Suc 0))) = Reply l3 (Failure m3)"
    using assms(5,7,9) by (simp_all add: numeral_2_eq_2 numeral_3_eq_3)
  show ?thesis
    unfolding cast_def castToDevice_def v
    using assms(2-4,6,8,10)
    by (simp add: n castToDeviceWithRetry_def initState_def
      step_def timeoutRunnable_def setURISuccess_def setURIFailure_def playSuccess_def
      playFailure_def retryOrFail_def retryDelay_def reject_def resolve_def postDelayed_def
      execute_def emitCastProgress_def getFlag_def compareAndSet_def removeCallbacks_def
      MAX_RETRIES_def INITIAL_RETRY_DELAY_def CAST_TIMEOUT_MS_def Let_def run_done run_next
      decimal_3)
qed

text \<open>
  When the renderer never answers, every attempt ends at its deadline, no attempt reaches
  \<open>buffering\<close>, and the call is rejected with \<open>CAST_FAILED\<close> again.
\<close>

lemma silent_every_time:
  assumes "acceptedUrl (Some u)" and "upnpService e"
    and "\<And>t. getDevice e t deviceId = Found dev" and "hasAVTransport dev"
    and "\<And>n. setUriReply e n = NoReply"
  shows
  "promise (cast e deviceId (Some u) title) =
     [Rejected ''CAST_FAILED'' ''Operation timed out after 3 attempts''] \<and>
   attempts (cast e deviceId (Some u) title) = [(0, 1), (31000, 2), (63000, 3)] \<and>
   map stage (emitted (cast e deviceId (Some u) title)) =
     [''connecting'', ''connecting'', ''connecting'']"
proof -
  have v: "validateVideoUrl (Some u) initState = Inr (u, initState)"
    by (rule validateVideoUrl_accepts [OF assms(1)])
  show ?thesis
    unfolding cast_def castToDevice_def v
    using assms(2-5)
    by (simp add: castToDeviceWithRetry_def initState_def
      step_def timeoutRunnable_def setURISuccess_def setURIFailure_def playSuccess_def
      playFailure_def retryOrFail_def retryDelay_def reject_def resolve_def postDelayed_def
      execute_def emitCastProgress_def getFlag_def compareAndSet_def removeCallbacks_def
      MAX_RETRIES_def INITIAL_RETRY_DELAY_def CAST_TIMEOUT_MS_def Let_def run_done run_next
      decimal_3)
qed

text \<open>
  C3.  The claim: when every attempt of a cast call fails, the caller receives a failure of
  kind MaxRetriesExceeded whose message describes the last error and the number of
  attempts.  The code at such a call, a renderer that refuses \<open>SetAVTransportURI\<close> on all
  three attempts: the message names the last error and the three attempts, but the kind
  is \<open>CAST_FAILED\<close>.
\<close>

theorem exhausted_retries_reject_CAST_FAILED:
  "promise (cast busyEnv ''uuid:tv'' (Some ''http://tv/a.mp4'') None) =
     [Rejected ''CAST_FAILED''
        (''Failed to load media: busy. Check that the URL is accessible from the TV'' @
         [CHR 0x27] @ ''s network. after 3 attempts'')] \<and>
   failureKind (cast busyEnv ''uuid:tv'' (Some ''http://tv/a.mp4'') None) = Some ''CAST_FAILED'' \<and>
   attempts (cast busyEnv ''uuid:tv'' (Some ''http://tv/a.mp4'') None) =
     [(0, 1), (1100, 2), (3200, 3)]"
  by (simp add: exec busyEnv_def failureKind_def promiseResult_def)

text \<open>
  C1.  The claim: once one outcome path of an attempt has fired, every path that arrives
  later, a dispatcher response after the deadline included, has no effect on the promise or
  on the retry loop.  The code at a call whose first \<open>SetAVTransportURI\<close> is refused after
  45 s: the deadline handler fires at 30 s and the retries it starts end in a rejection at
  33.2 s; the refusal that arrives at 45 s starts attempts 2 and 3 once more, five attempts
  and five executed actions in all, and the promise is rejected a second time.
\<close>

theorem late_response_restarts_retry_loop:
  "attempts (cast lateFailureEnv ''uuid:tv'' (Some ''http://tv/a.mp4'') None) =
     [(0, 1), (31000, 2), (33100, 3), (46000, 2), (48100, 3)] \<and>
   length (executed (cast lateFailureEnv ''uuid:tv'' (Some ''http://tv/a.mp4'') None)) = 5 \<and>
   map (\<lambda>r. case r of Rejected code msg \<Rightarrow> code | Resolved \<Rightarrow> ''resolved'')
     (promise (cast lateFailureEnv ''uuid:tv'' (Some ''http://tv/a.mp4'') None)) =
     [''CAST_FAILED'', ''CAST_FAILED'']"
  by (simp add: exec lateFailureEnv_def)

text \<open>
  C6.  The claim: within one cast call a failed attempt emits nothing further, and a run
  whose \<open>SetAVTransportURI\<close> fails on attempts 1 and 2 and succeeds on attempt 3 emits
  three \<open>connecting\<close> events, one \<open>buffering\<close> and one \<open>playing\<close> event.  The code
  at such a run whose first refusal arrives after 45 s: five \<open>connecting\<close>, two
  \<open>buffering\<close> and two \<open>playing\<close> events, and two calls of \<open>resolve\<close>.  And at a
  run whose first \<open>SetAVTransportURI\<close> is accepted after 30.5 s: the attempt has failed by
  its deadline at 30 s and emits \<open>buffering\<close> and \<open>playing\<close> after that, and the
  attempt that follows emits all three events again.
\<close>

theorem late_response_emits_more_events:
  "map stage (emitted (cast (thirdTimeEnv 45000) ''uuid:tv'' (Some ''http://tv/a.mp4'') None)) =
     [''connecting'', ''connecting'', ''connecting'', ''buffering'', ''playing'',
      ''connecting'', ''connecting'', ''buffering'', ''playing''] \<and>
   promise (cast (thirdTimeEnv 45000) ''uuid:tv'' (Some ''http://tv/a.mp4'') None) =
     [Resolved, Resolved] \<and>
   map (\<lambda>ev. (timestamp ev, stage ev))
     (emitted (cast lateSuccessEnv ''uuid:tv'' (Some ''http://tv/a.mp4'') None)) =
     [(0, ''connecting''), (30500, ''buffering''), (30600, ''playing''),
      (31000, ''connecting''), (31100, ''buffering''), (31200, ''playing'')] \<and>
   attempts (cast lateSuccessEnv ''uuid:tv'' (Some ''http://tv/a.mp4'') None) =
     [(0, 1), (31000, 2)]"
  by (simp add: exec thirdTimeEnv_def lateSuccessEnv_def)

end
